theory Spec2Isabelle
  imports Complex_Main "HOL-Library.Word"
begin

section \<open>Trend Analysis Engine (historical-insights.service.ts)\<close>

text \<open>
  JavaScript numbers are modelled as exact rationals: the scores are integers in practice
  and every comparison below has a margin far above rounding error. A field of type
  \<open>number | null\<close> is a \<open>rat option\<close>, \<open>null\<close> being \<open>None\<close>. Dates are
  milliseconds since the epoch (\<open>getTime()\<close>).
\<close>

datatype time_period = P7d | P30d | P90d | P1y

fun periodString :: "time_period \<Rightarrow> string" where
  "periodString P7d = ''7d''"
| "periodString P30d = ''30d''"
| "periodString P90d = ''90d''"
| "periodString P1y = ''1y''"

record TrendAnalysisParams =
  timePeriod :: time_period
  minimumDataPoints :: nat
  significanceThreshold :: rat

fun TREND_PARAMS :: "time_period \<Rightarrow> TrendAnalysisParams" where
  "TREND_PARAMS P7d = \<lparr>timePeriod = P7d, minimumDataPoints = 3, significanceThreshold = 5\<rparr>"
| "TREND_PARAMS P30d = \<lparr>timePeriod = P30d, minimumDataPoints = 5, significanceThreshold = 8\<rparr>"
| "TREND_PARAMS P90d = \<lparr>timePeriod = P90d, minimumDataPoints = 8, significanceThreshold = 10\<rparr>"
| "TREND_PARAMS P1y = \<lparr>timePeriod = P1y, minimumDataPoints = 12, significanceThreshold = 15\<rparr>"

text \<open>
  \<open>PerformanceHistory\<close> is declared in the shared schema; the fields are those the
  service reads.
\<close>

record PerformanceHistory =
  historicalTrackingId :: string
  recordedAt :: int
  overallScore :: rat
  seoScore :: "rat option"
  accessibilityScore :: "rat option"
  mobileScore :: "rat option"
  performanceScore :: "rat option"

datatype trend = Improving | Declining | Stable

datatype strength = Weak | Moderate | Strong

datatype magnitude = Minor | ModerateChange | Major

datatype category = Overall | SEO | Accessibility | Mobile | Performance

datatype change_type = Improvement | Regression

text \<open>
  \<open>SignificantChange\<close> without its \<open>description\<close>, a rendering of \<open>scoreChange\<close> and
  \<open>percentageChange\<close> as text (JavaScript's number formatting), which nothing reads.
\<close>

record SignificantChange =
  sc_category :: category
  sc_type :: change_type
  sc_magnitude :: magnitude
  scoreChange :: rat
  percentageChange :: rat
  sc_impact :: string
  possibleCauses :: "string list"

subsection \<open>Array helpers\<close>

text \<open>
  \<open>Array.prototype.slice(start, end)\<close>: a negative index counts from the end, and
  both are clamped to the array.
\<close>

definition sliceIndex :: "nat \<Rightarrow> int \<Rightarrow> nat" where
  "sliceIndex n i = (if i < 0 then nat (max (int n + i) 0) else nat (min i (int n)))"

definition slice :: "'a list \<Rightarrow> int \<Rightarrow> int \<Rightarrow> 'a list" where
  "slice xs start fin =
     (let s = sliceIndex (length xs) start; e = sliceIndex (length xs) fin
      in take (e - s) (drop s xs))"

definition sliceFrom :: "'a list \<Rightarrow> int \<Rightarrow> 'a list" where
  "sliceFrom xs start = drop (sliceIndex (length xs) start) xs"

text \<open>
  \<open>[...history].sort((a, b) => a.recordedAt - b.recordedAt)\<close>: a stable sort by the
  time stamp, leaving \<open>history\<close> itself untouched.
\<close>

definition sortByRecordedAt :: "PerformanceHistory list \<Rightarrow> PerformanceHistory list" where
  "sortByRecordedAt history = sort_key recordedAt history"

text \<open>\<open>Math.round\<close> rounds a half upwards.\<close>

definition Math_round :: "rat \<Rightarrow> rat" where
  "Math_round x = of_int \<lfloor>x + 1 / 2\<rfloor>"

subsection \<open>calculateAverageScores\<close>

record AverageScores =
  avg_overall :: rat
  avg_seo :: "rat option"
  avg_accessibility :: "rat option"
  avg_mobile :: "rat option"
  avg_performance :: "rat option"

text \<open>
  The loop adds a field to its total and counts it when it is not \<open>null\<close>; the average
  of a field that was never counted is \<open>null\<close>.
\<close>

definition nonNull :: "('a \<Rightarrow> rat option) \<Rightarrow> 'a list \<Rightarrow> rat list" where
  "nonNull f rs = List.map_filter f rs"

definition averageOrNull :: "rat list \<Rightarrow> rat option" where
  "averageOrNull vs = (if length vs > 0 then Some (sum_list vs / of_nat (length vs)) else None)"

definition calculateAverageScores :: "PerformanceHistory list \<Rightarrow> AverageScores" where
  "calculateAverageScores history =
     (if length history = 0
      then \<lparr>avg_overall = 0, avg_seo = None, avg_accessibility = None, avg_mobile = None,
            avg_performance = None\<rparr>
      else \<lparr>avg_overall = sum_list (map overallScore history) / of_nat (length history),
            avg_seo = averageOrNull (nonNull seoScore history),
            avg_accessibility = averageOrNull (nonNull accessibilityScore history),
            avg_mobile = averageOrNull (nonNull mobileScore history),
            avg_performance = averageOrNull (nonNull performanceScore history)\<rparr>)"

subsection \<open>detectOverallTrend and calculateTrendStrength\<close>

definition detectOverallTrend :: "PerformanceHistory list \<Rightarrow> trend" where
  "detectOverallTrend history =
     (if length history < 2 then Stable
      else
        let sortedHistory = sortByRecordedAt history;
            recentHalf = sliceFrom sortedHistory \<lceil>rat_of_nat (length sortedHistory) / 2\<rceil>;
            earlierHalf = slice sortedHistory 0 \<lfloor>rat_of_nat (length sortedHistory) / 2\<rfloor>;
            recentAverage = calculateAverageScores recentHalf;
            earlierAverage = calculateAverageScores earlierHalf;
            overallChange = avg_overall recentAverage - avg_overall earlierAverage
        in if overallChange \<ge> 5 then Improving
           else if overallChange \<le> - 5 then Declining
           else Stable)"

fun consecutiveDifferences :: "PerformanceHistory list \<Rightarrow> rat list" where
  "consecutiveDifferences (a # b # rest) =
     (overallScore b - overallScore a) # consecutiveDifferences (b # rest)"
| "consecutiveDifferences _ = []"

definition calculateConsecutiveChanges :: "PerformanceHistory list \<Rightarrow> rat list" where
  "calculateConsecutiveChanges history =
     (if length history < 2 then []
      else consecutiveDifferences (sortByRecordedAt history))"

definition calculateConsistencyScore :: "rat list \<Rightarrow> trend \<Rightarrow> rat" where
  "calculateConsistencyScore changes tr =
     (if length changes = 0 then 0
      else
        let expectedDirection = (if tr = Improving then 1 else - 1) :: int;
            consistentChanges =
              length (filter (\<lambda>change. (change > 0 \<and> expectedDirection > 0)
                                        \<or> (change < 0 \<and> expectedDirection < 0)) changes)
        in (of_nat consistentChanges / of_nat (length changes)) * 100)"

definition calculateMagnitudeScore :: "rat list \<Rightarrow> rat" where
  "calculateMagnitudeScore changes =
     (if length changes = 0 then 0
      else
        let averageMagnitude = sum_list (map abs changes) / of_nat (length changes)
        in min 100 (averageMagnitude * 5))"

definition calculateTrendStrength :: "PerformanceHistory list \<Rightarrow> trend \<Rightarrow> strength" where
  "calculateTrendStrength history tr =
     (if tr = Stable then Weak
      else
        let changes = calculateConsecutiveChanges history;
            consistencyScore = calculateConsistencyScore changes tr;
            magnitudeScore = calculateMagnitudeScore changes;
            strengthScore = (consistencyScore + magnitudeScore) / 2
        in if strengthScore \<ge> 75 then Strong
           else if strengthScore \<ge> 50 then Moderate
           else Weak)"

subsection \<open>identifyImprovements and identifyRegressions\<close>

definition metricNameToCategory :: "string \<Rightarrow> category" where
  "metricNameToCategory metricName =
     (case map_of [(''Overall'', Overall), (''SEO'', SEO), (''Accessibility'', Accessibility),
                   (''Mobile'', Mobile), (''Performance'', Performance)] metricName of
        Some c \<Rightarrow> c
      | None \<Rightarrow> Overall)"

definition classifyMagnitude :: "rat \<Rightarrow> rat \<Rightarrow> magnitude" where
  "classifyMagnitude change threshold =
     (if change \<ge> threshold * (5 / 2) then Major
      else if change \<ge> threshold * (3 / 2) then ModerateChange
      else Minor)"

definition possibleCausesTable :: "(string \<times> (change_type \<Rightarrow> string list)) list" where
  "possibleCausesTable =
     [(''Overall'', \<lambda>t. case t of
          Improvement \<Rightarrow> [''Comprehensive optimization efforts'', ''Multiple metric improvements'',
                           ''Strategic performance initiatives'']
        | Regression \<Rightarrow> [''Multiple simultaneous issues'', ''Technical debt accumulation'',
                          ''Resource constraints'']),
      (''SEO'', \<lambda>t. case t of
          Improvement \<Rightarrow> [''Meta tag optimization'', ''Content structure improvements'',
                           ''Technical SEO enhancements'']
        | Regression \<Rightarrow> [''Content quality issues'', ''Technical SEO problems'',
                          ''Crawling or indexing issues'']),
      (''Accessibility'', \<lambda>t. case t of
          Improvement \<Rightarrow> [''WCAG compliance improvements'', ''Screen reader optimizations'',
                           ''Keyboard navigation enhancements'']
        | Regression \<Rightarrow> [''New accessibility barriers'', ''Missing alt texts or labels'',
                          ''Color contrast issues'']),
      (''Mobile'', \<lambda>t. case t of
          Improvement \<Rightarrow> [''Responsive design improvements'', ''Mobile-specific optimizations'',
                           ''Touch interaction enhancements'']
        | Regression \<Rightarrow> [''Mobile layout issues'', ''Touch target problems'',
                          ''Mobile performance degradation'']),
      (''Performance'', \<lambda>t. case t of
          Improvement \<Rightarrow> [''Code optimization'', ''Caching improvements'', ''Resource compression'']
        | Regression \<Rightarrow> [''Increased payload size'', ''Third-party script issues'',
                          ''Server performance problems''])]"

definition generatePossibleCauses :: "string \<Rightarrow> change_type \<Rightarrow> string list" where
  "generatePossibleCauses metricName changeType =
     (case map_of possibleCausesTable metricName of
        Some causes \<Rightarrow> causes changeType
      | None \<Rightarrow> [''General optimization changes'', ''External factors'', ''Technical modifications''])"

record metric =
  m_name :: string
  m_recent :: "rat option"
  m_baseline :: "rat option"

definition metricsOf :: "AverageScores \<Rightarrow> AverageScores \<Rightarrow> metric list" where
  "metricsOf recentAvg baselineAvg =
     [\<lparr>m_name = ''Overall'', m_recent = Some (avg_overall recentAvg),
        m_baseline = Some (avg_overall baselineAvg)\<rparr>,
      \<lparr>m_name = ''SEO'', m_recent = avg_seo recentAvg, m_baseline = avg_seo baselineAvg\<rparr>,
      \<lparr>m_name = ''Accessibility'', m_recent = avg_accessibility recentAvg,
        m_baseline = avg_accessibility baselineAvg\<rparr>,
      \<lparr>m_name = ''Mobile'', m_recent = avg_mobile recentAvg, m_baseline = avg_mobile baselineAvg\<rparr>,
      \<lparr>m_name = ''Performance'', m_recent = avg_performance recentAvg,
        m_baseline = avg_performance baselineAvg\<rparr>]"

text \<open>
  One turn of the loop over the metrics: \<open>None\<close> when the metric is skipped (a \<open>null\<close>
  average, or a change short of the threshold), the pushed entry otherwise.
\<close>

definition improvementOf :: "rat \<Rightarrow> metric \<Rightarrow> SignificantChange option" where
  "improvementOf threshold m =
     (case (m_recent m, m_baseline m) of
        (Some recent, Some baseline) \<Rightarrow>
          (let change = recent - baseline;
               percentage = (if baseline > 0 then (change / baseline) * 100 else 0)
           in if change \<ge> threshold
              then Some \<lparr>sc_category = metricNameToCategory (m_name m),
                         sc_type = Improvement,
                         sc_magnitude = classifyMagnitude \<bar>change\<bar> threshold,
                         scoreChange = Math_round (change * 100) / 100,
                         percentageChange = Math_round (percentage * 100) / 100,
                         sc_impact = ''Positive change in '' @ m_name m
                            @ '' performance indicates successful optimization efforts'',
                         possibleCauses = generatePossibleCauses (m_name m) Improvement\<rparr>
              else None)
      | _ \<Rightarrow> None)"

definition regressionOf :: "rat \<Rightarrow> metric \<Rightarrow> SignificantChange option" where
  "regressionOf threshold m =
     (case (m_recent m, m_baseline m) of
        (Some recent, Some baseline) \<Rightarrow>
          (let change = recent - baseline;
               percentage = (if baseline > 0 then (change / baseline) * 100 else 0)
           in if change \<le> - threshold
              then Some \<lparr>sc_category = metricNameToCategory (m_name m),
                         sc_type = Regression,
                         sc_magnitude = classifyMagnitude \<bar>change\<bar> threshold,
                         scoreChange = Math_round (change * 100) / 100,
                         percentageChange = Math_round (percentage * 100) / 100,
                         sc_impact = ''Negative change in '' @ m_name m
                            @ '' performance requires attention and optimization'',
                         possibleCauses = generatePossibleCauses (m_name m) Regression\<rparr>
              else None)
      | _ \<Rightarrow> None)"

definition identifyImprovements :: "PerformanceHistory list \<Rightarrow> rat \<Rightarrow> SignificantChange list" where
  "identifyImprovements history threshold =
     (if length history < 2 then []
      else
        let sortedHistory = sortByRecordedAt history;
            recentAvg = calculateAverageScores (sliceFrom sortedHistory (- 5));
            baselineAvg = calculateAverageScores (slice sortedHistory 0 5)
        in List.map_filter (improvementOf threshold) (metricsOf recentAvg baselineAvg))"

definition identifyRegressions :: "PerformanceHistory list \<Rightarrow> rat \<Rightarrow> SignificantChange list" where
  "identifyRegressions history threshold =
     (if length history < 2 then []
      else
        let sortedHistory = sortByRecordedAt history;
            recentAvg = calculateAverageScores (sliceFrom sortedHistory (- 5));
            baselineAvg = calculateAverageScores (slice sortedHistory 0 5)
        in List.map_filter (regressionOf threshold) (metricsOf recentAvg baselineAvg))"

subsection \<open>The trend-analysis store (storage.ts, MemStorage)\<close>

record TrendInsight =
  ti_type :: string
  ti_category :: category
  ti_title :: string
  ti_description :: string
  ti_impact :: string
  ti_timeframe :: string
  ti_confidence :: rat
  ti_dataSupport :: "string list"

record HistoricalRecommendation =
  hr_priority :: string
  hr_category :: string
  hr_title :: string
  hr_description :: string
  hr_expectedImpact :: string
  hr_effort :: string
  hr_timeframe :: string
  hr_basedOn :: "string list"

record InsertTrendAnalysis =
  ins_historicalTrackingId :: string
  ins_timePeriod :: time_period
  ins_overallTrend :: trend
  ins_trendStrength :: strength
  ins_keyInsights :: "TrendInsight list"
  ins_improvements :: "SignificantChange list"
  ins_regressions :: "SignificantChange list"
  ins_recommendations :: "HistoricalRecommendation list"
  ins_confidenceScore :: rat

record TrendAnalysis =
  ta_id :: string
  ta_historicalTrackingId :: string
  ta_timePeriod :: time_period
  ta_overallTrend :: trend
  ta_trendStrength :: strength
  ta_keyInsights :: "TrendInsight list"
  ta_improvements :: "SignificantChange list"
  ta_regressions :: "SignificantChange list"
  ta_recommendations :: "HistoricalRecommendation list"
  ta_confidenceScore :: rat
  ta_analysisDate :: int

text \<open>
  The two maps of \<open>MemStorage\<close> that the engine touches. \<open>Map.get\<close> of an absent key is
  \<open>undefined\<close>, here \<open>None\<close>.
\<close>

record MemStorage =
  performanceHistory :: "string \<rightharpoonup> PerformanceHistory list"
  trendAnalyses :: "string \<rightharpoonup> TrendAnalysis"

text \<open>What a call reads from outside: \<open>new Date()\<close> and \<open>randomUUID()\<close>.\<close>

record env =
  now :: int
  uuid :: string

definition trendKey :: "string \<Rightarrow> time_period \<Rightarrow> string" where
  "trendKey trackingId tp = trackingId @ ''_'' @ periodString tp"

text \<open>
  \<open>createOrUpdateTrendAnalysis\<close>: with a record under the key, the spread
  \<open>{...existing, ...insertAnalysis, analysisDate}\<close> keeps the id of the old record and takes
  every other field from the new analysis; without one, a record with a fresh id is stored.
  The services always pass the four lists, so \<open>|| []\<close> leaves them as they are.
\<close>

definition createOrUpdateTrendAnalysis ::
  "env \<Rightarrow> MemStorage \<Rightarrow> InsertTrendAnalysis \<Rightarrow> TrendAnalysis \<times> MemStorage" where
  "createOrUpdateTrendAnalysis e st insertAnalysis =
     (let key = trendKey (ins_historicalTrackingId insertAnalysis) (ins_timePeriod insertAnalysis)
      in case trendAnalyses st key of
           Some existing \<Rightarrow>
             (let updated = existing\<lparr>
                    ta_historicalTrackingId := ins_historicalTrackingId insertAnalysis,
                    ta_timePeriod := ins_timePeriod insertAnalysis,
                    ta_overallTrend := ins_overallTrend insertAnalysis,
                    ta_trendStrength := ins_trendStrength insertAnalysis,
                    ta_keyInsights := ins_keyInsights insertAnalysis,
                    ta_improvements := ins_improvements insertAnalysis,
                    ta_regressions := ins_regressions insertAnalysis,
                    ta_recommendations := ins_recommendations insertAnalysis,
                    ta_confidenceScore := ins_confidenceScore insertAnalysis,
                    ta_analysisDate := now e\<rparr>
              in (updated, st\<lparr>trendAnalyses := (trendAnalyses st)(key \<mapsto> updated)\<rparr>))
         | None \<Rightarrow>
             (let analysis = \<lparr>
                    ta_id = uuid e,
                    ta_historicalTrackingId = ins_historicalTrackingId insertAnalysis,
                    ta_timePeriod = ins_timePeriod insertAnalysis,
                    ta_overallTrend = ins_overallTrend insertAnalysis,
                    ta_trendStrength = ins_trendStrength insertAnalysis,
                    ta_keyInsights = ins_keyInsights insertAnalysis,
                    ta_improvements = ins_improvements insertAnalysis,
                    ta_regressions = ins_regressions insertAnalysis,
                    ta_recommendations = ins_recommendations insertAnalysis,
                    ta_confidenceScore = ins_confidenceScore insertAnalysis,
                    ta_analysisDate = now e\<rparr>
              in (analysis, st\<lparr>trendAnalyses := (trendAnalyses st)(key \<mapsto> analysis)\<rparr>)))"

definition getTrendAnalysis :: "MemStorage \<Rightarrow> string \<Rightarrow> time_period \<Rightarrow> TrendAnalysis option" where
  "getTrendAnalysis st trackingId tp = trendAnalyses st (trendKey trackingId tp)"

definition getPerformanceHistoryByDateRange ::
  "MemStorage \<Rightarrow> string \<Rightarrow> int \<Rightarrow> int \<Rightarrow> PerformanceHistory list" where
  "getPerformanceHistoryByDateRange st trackingId startDate endDate =
     (let histories = (case performanceHistory st trackingId of Some hs \<Rightarrow> hs | None \<Rightarrow> [])
      in filter (\<lambda>h. recordedAt h \<ge> startDate \<and> recordedAt h \<le> endDate) histories)"

text \<open>
  A run of the store: the calls of \<open>createOrUpdateTrendAnalysis\<close>, each with what it read
  from outside, applied in turn. No other method of \<open>MemStorage\<close> writes \<open>trendAnalyses\<close>.
\<close>

fun runTrendCalls :: "MemStorage \<Rightarrow> (env \<times> InsertTrendAnalysis) list \<Rightarrow> MemStorage" where
  "runTrendCalls st [] = st"
| "runTrendCalls st ((e, a) # calls) = runTrendCalls (snd (createOrUpdateTrendAnalysis e st a)) calls"

definition emptyStorage :: MemStorage where
  "emptyStorage = \<lparr>performanceHistory = Map.empty, trendAnalyses = Map.empty\<rparr>"

text \<open>The trend records of a store that belong to one (trackingId, timePeriod) pair.\<close>

definition recordsFor :: "MemStorage \<Rightarrow> string \<Rightarrow> time_period \<Rightarrow> TrendAnalysis set" where
  "recordsFor st trackingId tp =
     {a \<in> ran (trendAnalyses st). ta_historicalTrackingId a = trackingId \<and> ta_timePeriod a = tp}"

subsection \<open>generateTrendAnalysis\<close>

text \<open>
  \<open>calculateDateRange\<close> moves a \<open>Date\<close> back by days or by a year in local calendar
  time; that arithmetic is the parameter \<open>calendar\<close>.
\<close>

record calendar =
  addDays :: "int \<Rightarrow> int \<Rightarrow> int"
  addYears :: "int \<Rightarrow> int \<Rightarrow> int"

record DateRange =
  startDate :: int
  endDate :: int

definition calculateDateRange :: "calendar \<Rightarrow> int \<Rightarrow> time_period \<Rightarrow> DateRange" where
  "calculateDateRange cal today tp =
     \<lparr>startDate = (case tp of
                     P7d \<Rightarrow> addDays cal today (- 7)
                   | P30d \<Rightarrow> addDays cal today (- 30)
                   | P90d \<Rightarrow> addDays cal today (- 90)
                   | P1y \<Rightarrow> addYears cal today (- 1)),
      endDate = today\<rparr>"

text \<open>
  The insight, recommendation and confidence heuristics of the analysed branch
  (\<open>generateKeyInsights\<close>, \<open>generateRecommendations\<close>, \<open>calculateConfidenceScore\<close>) are
  parameters: the properties below hold whatever they compute.
\<close>

record heuristics =
  generateKeyInsights :: "PerformanceHistory list \<Rightarrow> time_period \<Rightarrow> TrendInsight list"
  generateRecommendations ::
    "PerformanceHistory list \<Rightarrow> SignificantChange list \<Rightarrow> SignificantChange list
       \<Rightarrow> HistoricalRecommendation list"
  calculateConfidenceScore :: "PerformanceHistory list \<Rightarrow> time_period \<Rightarrow> rat"

definition createInsufficientDataAnalysis ::
  "env \<Rightarrow> MemStorage \<Rightarrow> string \<Rightarrow> time_period \<Rightarrow> TrendAnalysis \<times> MemStorage" where
  "createInsufficientDataAnalysis e st trackingId tp =
     createOrUpdateTrendAnalysis e st
       \<lparr>ins_historicalTrackingId = trackingId,
        ins_timePeriod = tp,
        ins_overallTrend = Stable,
        ins_trendStrength = Weak,
        ins_keyInsights =
          [\<lparr>ti_type = ''recommendation'', ti_category = Overall,
            ti_title = ''Insufficient Data for Analysis'',
            ti_description = ''Insufficient historical data available for '' @ periodString tp
              @ '' analysis. Continue running audits to build comprehensive trend insights.'',
            ti_impact = ''low'', ti_timeframe = periodString tp, ti_confidence = 10,
            ti_dataSupport = [''Limited audit history available'']\<rparr>],
        ins_improvements = [],
        ins_regressions = [],
        ins_recommendations =
          [\<lparr>hr_priority = ''low'', hr_category = ''monitoring'',
            hr_title = ''Increase Data Collection'',
            hr_description = ''Run additional audits to gather sufficient data for meaningful ''
              @ periodString tp @ '' trend analysis'',
            hr_expectedImpact =
              ''Enable comprehensive historical performance insights and recommendations'',
            hr_effort = ''low'', hr_timeframe = ''short-term'',
            hr_basedOn = [''Insufficient historical data points'']\<rparr>],
        ins_confidenceScore = 10\<rparr>"

definition generateTrendAnalysis ::
  "heuristics \<Rightarrow> calendar \<Rightarrow> env \<Rightarrow> MemStorage \<Rightarrow> string \<Rightarrow> time_period
     \<Rightarrow> TrendAnalysis \<times> MemStorage" where
  "generateTrendAnalysis hs cal e st trackingId tp =
     (let params = TREND_PARAMS tp;
          dateRange = calculateDateRange cal (now e) tp;
          history = getPerformanceHistoryByDateRange st trackingId
                      (startDate dateRange) (endDate dateRange)
      in if length history < minimumDataPoints params
         then createInsufficientDataAnalysis e st trackingId tp
         else
           let overallTrend = detectOverallTrend history;
               trendStrength = calculateTrendStrength history overallTrend;
               keyInsights = generateKeyInsights hs history tp;
               improvements = identifyImprovements history (significanceThreshold params);
               regressions = identifyRegressions history (significanceThreshold params);
               recommendations = generateRecommendations hs history improvements regressions;
               confidenceScore = calculateConfidenceScore hs history tp
           in createOrUpdateTrendAnalysis e st
                \<lparr>ins_historicalTrackingId = trackingId,
                 ins_timePeriod = tp,
                 ins_overallTrend = overallTrend,
                 ins_trendStrength = trendStrength,
                 ins_keyInsights = keyInsights,
                 ins_improvements = improvements,
                 ins_regressions = regressions,
                 ins_recommendations = recommendations,
                 ins_confidenceScore = confidenceScore\<rparr>)"

text \<open>
  The invariant of the store: every trend record sits under the key of its own
  (trackingId, timePeriod) pair.
\<close>

definition keyed :: "MemStorage \<Rightarrow> bool" where
  "keyed st \<longleftrightarrow> (\<forall>k a. trendAnalyses st k = Some a \<longrightarrow>
       k = trendKey (ta_historicalTrackingId a) (ta_timePeriod a))"

subsection \<open>Example data\<close>

text \<open>A history record of tracking \<open>t1\<close> with one score in every field but accessibility.\<close>

definition historyPoint :: "int \<Rightarrow> rat \<Rightarrow> PerformanceHistory" where
  "historyPoint t s =
     \<lparr>historicalTrackingId = ''t1'', recordedAt = t, overallScore = s, seoScore = Some s,
      accessibilityScore = None, mobileScore = Some s, performanceScore = Some s\<rparr>"

text \<open>A calendar without daylight saving or leap years, and heuristics that find nothing.\<close>

definition plainCalendar :: calendar where
  "plainCalendar = \<lparr>addDays = (\<lambda>t k. t + k * 86400000),
                     addYears = (\<lambda>t k. t + k * 365 * 86400000)\<rparr>"

definition quietHeuristics :: heuristics where
  "quietHeuristics = \<lparr>generateKeyInsights = (\<lambda>h p. []),
                       generateRecommendations = (\<lambda>h i r. []),
                       calculateConfidenceScore = (\<lambda>h p. 50)\<rparr>"

definition storageWith :: "PerformanceHistory list \<Rightarrow> MemStorage" where
  "storageWith hs = \<lparr>performanceHistory = [''t1'' \<mapsto> hs], trendAnalyses = Map.empty\<rparr>"

definition analysisOf :: "string \<Rightarrow> time_period \<Rightarrow> trend \<Rightarrow> rat \<Rightarrow> InsertTrendAnalysis" where
  "analysisOf trackingId tp tr c =
     \<lparr>ins_historicalTrackingId = trackingId, ins_timePeriod = tp, ins_overallTrend = tr,
      ins_trendStrength = Weak, ins_keyInsights = [], ins_improvements = [],
      ins_regressions = [], ins_recommendations = [], ins_confidenceScore = c\<rparr>"

section \<open>URL Safety Gate (audit.ts)\<close>

subsection \<open>String helpers\<close>

text \<open>
  The methods of JavaScript strings that the Gate calls, on ASCII text. \<open>toLowerCase\<close>
  maps \<open>A\<close> to \<open>Z\<close> and leaves every other character; \<open>trim\<close> strips white space at
  both ends; \<open>split\<close> is used with a one-character separator only.
\<close>

definition toLowerChar :: "char \<Rightarrow> char" where
  "toLowerChar c =
     (case map_of (zip ''ABCDEFGHIJKLMNOPQRSTUVWXYZ'' ''abcdefghijklmnopqrstuvwxyz'') c of
        Some l \<Rightarrow> l
      | None \<Rightarrow> c)"

definition toLowerCase :: "string \<Rightarrow> string" where
  "toLowerCase s = map toLowerChar s"

definition isWhiteSpace :: "char \<Rightarrow> bool" where
  "isWhiteSpace c \<longleftrightarrow> c \<in> set [CHR '' '', CHR 0x09, CHR 0x0A, CHR 0x0B, CHR 0x0C, CHR 0x0D]"

definition trim :: "string \<Rightarrow> string" where
  "trim s = rev (dropWhile isWhiteSpace (rev (dropWhile isWhiteSpace s)))"

definition startsWith :: "string \<Rightarrow> string \<Rightarrow> bool" where
  "startsWith s p \<longleftrightarrow> take (length p) s = p"

fun includesText :: "string \<Rightarrow> string \<Rightarrow> bool" where
  "includesText [] p \<longleftrightarrow> p = []"
| "includesText (c # s) p \<longleftrightarrow> startsWith (c # s) p \<or> includesText s p"

fun splitOn :: "char \<Rightarrow> string \<Rightarrow> string list" where
  "splitOn sep [] = [[]]"
| "splitOn sep (c # cs) =
     (if c = sep then [] # splitOn sep cs
      else case splitOn sep cs of
             p # ps \<Rightarrow> (c # p) # ps
           | [] \<Rightarrow> [[c]])"

text \<open>
  \<open>Number\<close> on the pieces of an address between dots. A string of decimal digits is
  its value and the empty string is 0. Anything else is \<open>NaN\<close>, here \<open>None\<close>: signs,
  exponents, hexadecimal and surrounding white space, which no resolved address carries,
  are not modelled. Every comparison with \<open>NaN\<close> is false.
\<close>

definition digitValue :: "char \<Rightarrow> nat option" where
  "digitValue c = map_of (zip ''0123456789'' [0, 1, 2, 3, 4, 5, 6, 7, 8, 9]) c"

fun decimalValue :: "nat \<Rightarrow> string \<Rightarrow> nat option" where
  "decimalValue acc [] = Some acc"
| "decimalValue acc (c # cs) =
     (case digitValue c of
        None \<Rightarrow> None
      | Some d \<Rightarrow> decimalValue (10 * acc + d) cs)"

definition Number :: "string \<Rightarrow> nat option" where
  "Number s = decimalValue 0 s"

definition numEq :: "nat option \<Rightarrow> nat \<Rightarrow> bool" where
  "numEq x n \<longleftrightarrow> x = Some n"

definition numGe :: "nat option \<Rightarrow> nat \<Rightarrow> bool" where
  "numGe x n \<longleftrightarrow> (case x of Some v \<Rightarrow> v \<ge> n | None \<Rightarrow> False)"

definition numLe :: "nat option \<Rightarrow> nat \<Rightarrow> bool" where
  "numLe x n \<longleftrightarrow> (case x of Some v \<Rightarrow> v \<le> n | None \<Rightarrow> False)"

subsection \<open>isPrivateIP\<close>

definition isPrivateIPv6 :: "string \<Rightarrow> bool" where
  "isPrivateIPv6 ip =
     (let normalized = trim (toLowerCase ip)
      in if normalized = ''::1'' \<or> normalized = ''::'' then True
         else
           let parts = filter (\<lambda>p. length p > 0) (splitOn CHR '':'' normalized)
           in if length parts = 0 then True
              else
                let firstHextet = hd parts
                in if firstHextet = ''fe80'' \<or> startsWith normalized ''fe80:'' then True
                   else if startsWith firstHextet ''fc'' \<or> startsWith firstHextet ''fd'' then True
                   else if startsWith firstHextet ''ff'' then True
                   else False)"

definition isPrivateIPv4 :: "string \<Rightarrow> bool" where
  "isPrivateIPv4 ip =
     (let parts = map Number (splitOn CHR ''.'' ip)
      in if length parts \<noteq> 4 then False
         else if numEq (parts ! 0) 127 then True
         else if numEq (parts ! 0) 10 then True
         else if numEq (parts ! 0) 172 \<and> numGe (parts ! 1) 16 \<and> numLe (parts ! 1) 31 then True
         else if numEq (parts ! 0) 192 \<and> numEq (parts ! 1) 168 then True
         else if numEq (parts ! 0) 169 \<and> numEq (parts ! 1) 254 then True
         else if numEq (parts ! 0) 0 then True
         else if numGe (parts ! 0) 224 \<and> numLe (parts ! 0) 239 then True
         else False)"

definition isPrivateIP :: "string \<Rightarrow> bool" where
  "isPrivateIP ip = (if CHR '':'' \<in> set ip then isPrivateIPv6 ip else isPrivateIPv4 ip)"

subsection \<open>validateUrlSafety\<close>

text \<open>
  The parsed URL (\<open>new URL(url)\<close>) is the input: its \<open>protocol\<close> and its \<open>hostname\<close>.
  The resolver is a function from the host name to what \<open>dns.lookup\<close> settles with: an
  address, or an \<open>Error\<close> with its message. A thrown \<open>Error\<close> is \<open>Inl\<close> of its message.
\<close>

record url =
  protocol :: string
  hostname :: string

datatype dns_result = Address string | LookupError string

text \<open>
  The literal-hostname pattern
  \<open>/^(10\.|172\.(1[6-9]|2[0-9]|3[0-1])\.|192\.168\.|127\.|169\.254\.)/\<close>.
\<close>

definition privateHostnamePattern :: "string \<Rightarrow> bool" where
  "privateHostnamePattern h \<longleftrightarrow>
     startsWith h ''10.''
     \<or> list_ex (\<lambda>second. startsWith h (''172.'' @ second @ ''.''))
          [''16'', ''17'', ''18'', ''19'', ''20'', ''21'', ''22'', ''23'', ''24'', ''25'',
           ''26'', ''27'', ''28'', ''29'', ''30'', ''31'']
     \<or> startsWith h ''192.168.''
     \<or> startsWith h ''127.''
     \<or> startsWith h ''169.254.''"

text \<open>
  The test of the \<open>catch\<close> block: an error whose message contains \<open>Cannot audit\<close> is the
  Gate's own rejection and is thrown again; any other error is logged and dropped.
\<close>

definition isGateRejection :: "string \<Rightarrow> bool" where
  "isGateRejection message \<longleftrightarrow> includesText message ''Cannot audit''"

definition resolveAndCheck :: "(string \<Rightarrow> dns_result) \<Rightarrow> url \<Rightarrow> string + unit" where
  "resolveAndCheck dnsLookup urlObj =
     (case dnsLookup (hostname urlObj) of
        LookupError message \<Rightarrow> Inl message
      | Address address \<Rightarrow>
          if isPrivateIP address then Inl ''Cannot audit private or internal IP addresses''
          else Inr ())"

definition validateUrlSafety :: "(string \<Rightarrow> dns_result) \<Rightarrow> url \<Rightarrow> string + unit" where
  "validateUrlSafety dnsLookup urlObj =
     (if protocol urlObj \<notin> set [''http:'', ''https:'']
      then Inl ''Only HTTP and HTTPS protocols are allowed''
      else
        let host = toLowerCase (hostname urlObj)
        in if host \<in> set [''localhost'', ''127.0.0.1'', ''::1'']
           then Inl ''Cannot audit localhost or loopback addresses''
           else if privateHostnamePattern host
           then Inl ''Cannot audit private or internal IP addresses''
           else
             case resolveAndCheck dnsLookup urlObj of
               Inl message \<Rightarrow> if isGateRejection message then Inl message else Inr ()
             | Inr ok \<Rightarrow> Inr ())"

subsection \<open>The documented ranges\<close>

text \<open>
  The ranges the Gate is documented to reject, on the address as a number rather than
  as text. An IPv4 address is its four octets, an IPv6 address its eight 16-bit groups.
  A range \<open>net/len\<close> holds the addresses that agree with \<open>net\<close> on the first \<open>len\<close> bits.
\<close>

definition ipv4Value :: "nat \<Rightarrow> nat \<Rightarrow> nat \<Rightarrow> nat \<Rightarrow> nat" where
  "ipv4Value a b c d = ((a * 256 + b) * 256 + c) * 256 + d"

definition inRange :: "nat \<Rightarrow> nat \<Rightarrow> nat \<Rightarrow> nat \<Rightarrow> bool" where
  "inRange width addr net len \<longleftrightarrow> addr div 2 ^ (width - len) = net div 2 ^ (width - len)"

definition documentedPrivateIPv4 :: "nat \<Rightarrow> nat \<Rightarrow> nat \<Rightarrow> nat \<Rightarrow> bool" where
  "documentedPrivateIPv4 a b c d \<longleftrightarrow>
     (let addr = ipv4Value a b c d
      in inRange 32 addr (ipv4Value 127 0 0 0) 8
         \<or> inRange 32 addr (ipv4Value 10 0 0 0) 8
         \<or> inRange 32 addr (ipv4Value 172 16 0 0) 12
         \<or> inRange 32 addr (ipv4Value 192 168 0 0) 16
         \<or> inRange 32 addr (ipv4Value 169 254 0 0) 16
         \<or> inRange 32 addr (ipv4Value 0 0 0 0) 8
         \<or> inRange 32 addr (ipv4Value 224 0 0 0) 4)"

text \<open>
  For IPv6 the three documented prefixes are all shorter than 16 bits, so the first group
  decides them; the loopback address is \<open>0:0:0:0:0:0:0:1\<close>.
\<close>

definition documentedPrefixIPv6 :: "nat \<Rightarrow> bool" where
  "documentedPrefixIPv6 first \<longleftrightarrow>
     inRange 16 first 0xfe80 10 \<or> inRange 16 first 0xfc00 7 \<or> inRange 16 first 0xff00 8"

definition documentedPrivateIPv6 :: "nat list \<Rightarrow> bool" where
  "documentedPrivateIPv6 groups \<longleftrightarrow>
     groups = [0, 0, 0, 0, 0, 0, 0, 1] \<or> (groups \<noteq> [] \<and> documentedPrefixIPv6 (hd groups))"

subsection \<open>Addresses as text\<close>

definition digitChar :: "nat \<Rightarrow> char" where
  "digitChar d = ''0123456789abcdef'' ! d"

fun decimal :: "nat \<Rightarrow> string" where
  "decimal n = (if n < 10 then [digitChar n] else decimal (n div 10) @ [digitChar (n mod 10)])"

declare decimal.simps [simp del]

definition dottedQuad :: "nat \<Rightarrow> nat \<Rightarrow> nat \<Rightarrow> nat \<Rightarrow> string" where
  "dottedQuad a b c d = decimal a @ ''.'' @ decimal b @ ''.'' @ decimal c @ ''.'' @ decimal d"

text \<open>A 16-bit group written with all four hexadecimal digits, lower case.\<close>

definition hex4 :: "nat \<Rightarrow> string" where
  "hex4 h = [digitChar (h div 4096), digitChar (h div 256 mod 16), digitChar (h div 16 mod 16),
             digitChar (h mod 16)]"

section \<open>Link Integrity Checker (audit.ts, checkLinks)\<close>

text \<open>
  What the checker reads from the parsed page: the anchors selected by \<open>a[href]\<close>, each
  with its \<open>href\<close> and with the element that \<open>closest('nav, header, footer, main,
  article, section')\<close> finds, if any.
\<close>

record landmark =
  tagName :: "string option"
  className :: "string option"
  elementId :: "string option"

record anchor =
  href :: string
  closest :: "landmark option"

datatype link_type = Internal | External

record BrokenLink =
  bl_url :: string
  bl_status :: nat
  bl_foundIn :: string
  bl_type :: link_type

text \<open>
  How an axios request settles: with a response, with an axios error that carries a
  response, or with any other error (no response: DNS failure, refused connection,
  time-out).
\<close>

datatype http_result = Response nat | ErrorWithResponse nat | ErrorWithoutResponse

text \<open>
  The outside world of one run. \<open>resolveUrl href base\<close> is \<open>new URL(href,
  base).toString()\<close>, \<open>originOf u\<close> is \<open>new URL(u).origin\<close> and \<open>parseUrl u\<close> is
  \<open>new URL(u)\<close>; each is \<open>None\<close> when the constructor throws. \<open>httpHead\<close> and
  \<open>httpGet\<close> are the two axios requests. They are functions of the URL: within a run no
  URL is requested twice by the same method.
\<close>

record web =
  resolveUrl :: "string \<Rightarrow> string \<Rightarrow> string option"
  originOf :: "string \<Rightarrow> string option"
  parseUrl :: "string \<Rightarrow> url option"
  dnsLookupOf :: "string \<Rightarrow> dns_result"
  httpHead :: "string \<Rightarrow> http_result"
  httpGet :: "string \<Rightarrow> http_result"

definition truthy :: "string option \<Rightarrow> bool" where
  "truthy s \<longleftrightarrow> (case s of Some t \<Rightarrow> t \<noteq> [] | None \<Rightarrow> False)"

definition findLinkContext :: "anchor \<Rightarrow> string" where
  "findLinkContext link =
     (case closest link of
        Some parent \<Rightarrow>
          (let tag = map_option toLowerCase (tagName parent);
               context0 = (if truthy tag then the tag else ''unknown'');
               context1 = (if truthy (elementId parent)
                           then context0 @ ''#'' @ the (elementId parent) else context0);
               context2 = (if truthy (className parent)
                           then context1 @ ''.'' @ hd (splitOn CHR '' '' (the (className parent)))
                           else context1)
           in context2)
      | None \<Rightarrow> ''page content'')"

text \<open>\<open>validateUrlSafety\<close> on the URL as a string: the constructor may throw first.\<close>

definition validateUrlString :: "web \<Rightarrow> string \<Rightarrow> string + unit" where
  "validateUrlString w u =
     (case parseUrl w u of
        None \<Rightarrow> Inl ''Invalid URL''
      | Some urlObj \<Rightarrow> validateUrlSafety (dnsLookupOf w) urlObj)"

text \<open>
  The absolute URL of an anchor and whether it is internal; \<open>None\<close> when a URL
  constructor throws, which the outer \<open>catch\<close> turns into \<open>continue\<close>.
\<close>

definition resolveTarget :: "web \<Rightarrow> string \<Rightarrow> string \<Rightarrow> (string \<times> bool) option" where
  "resolveTarget w baseUrl h =
     (if startsWith h ''/''
      then map_option (\<lambda>absoluteUrl. (absoluteUrl, True)) (resolveUrl w h baseUrl)
      else if startsWith h ''http''
      then (case (originOf w h, originOf w baseUrl) of
              (Some o1, Some o2) \<Rightarrow> Some (h, o1 = o2)
            | _ \<Rightarrow> None)
      else map_option (\<lambda>absoluteUrl. (absoluteUrl, True)) (resolveUrl w h baseUrl))"

text \<open>
  The probe: HEAD first; when HEAD fails with an axios error of status 405 or 501, GET,
  whose outcome then stands; any other HEAD error is thrown on.
\<close>

definition probe :: "web \<Rightarrow> string \<Rightarrow> http_result" where
  "probe w absoluteUrl =
     (case httpHead w absoluteUrl of
        Response s \<Rightarrow> Response s
      | ErrorWithResponse s \<Rightarrow>
          if s = 405 \<or> s = 501 then httpGet w absoluteUrl else ErrorWithResponse s
      | ErrorWithoutResponse \<Rightarrow> ErrorWithoutResponse)"

text \<open>
  The status pushed for an outcome, if any: \<open>response.status\<close> when it is at least 400,
  and in the \<open>catch\<close> block \<open>error.response.status\<close> whenever the error has a response.
\<close>

definition recordedStatus :: "http_result \<Rightarrow> nat option" where
  "recordedStatus outcome =
     (case outcome of
        Response s \<Rightarrow> if s \<ge> 400 then Some s else None
      | ErrorWithResponse s \<Rightarrow> Some s
      | ErrorWithoutResponse \<Rightarrow> None)"

text \<open>
  The variables of the loop, and with them \<open>probed\<close>: the URLs handed to \<open>axios.head\<close>,
  in order. The code keeps no such list; it is here to say what the checker sends.
\<close>

record link_state =
  brokenLinks :: "BrokenLink list"
  checkedUrls :: "string set"
  checkedCount :: nat
  probed :: "string list"

definition maxLinksToCheck :: nat where
  "maxLinksToCheck = 50"

definition checkLink :: "web \<Rightarrow> string \<Rightarrow> anchor \<Rightarrow> link_state \<Rightarrow> link_state" where
  "checkLink w baseUrl link st =
     (let h = href link
      in if h = [] \<or> startsWith h ''#'' \<or> startsWith h ''mailto:'' \<or> startsWith h ''tel:''
         then st
         else
           case resolveTarget w baseUrl h of
             None \<Rightarrow> st
           | Some (absoluteUrl, isInternal) \<Rightarrow>
               if absoluteUrl \<in> checkedUrls st then st
               else
                 let st1 = st\<lparr>checkedUrls := insert absoluteUrl (checkedUrls st),
                               checkedCount := checkedCount st + 1\<rparr>
                 in if \<not> isInternal \<and> isl (validateUrlString w absoluteUrl) then st1
                    else
                      let st2 = st1\<lparr>probed := probed st1 @ [absoluteUrl]\<rparr>
                      in case recordedStatus (probe w absoluteUrl) of
                           None \<Rightarrow> st2
                         | Some s \<Rightarrow>
                             st2\<lparr>brokenLinks := brokenLinks st2 @
                                   [\<lparr>bl_url = absoluteUrl, bl_status = s,
                                     bl_foundIn = findLinkContext link,
                                     bl_type = (if isInternal then Internal else External)\<rparr>]\<rparr>)"

fun checkLinksLoop :: "web \<Rightarrow> string \<Rightarrow> anchor list \<Rightarrow> link_state \<Rightarrow> link_state" where
  "checkLinksLoop w baseUrl [] st = st"
| "checkLinksLoop w baseUrl (link # links) st =
     (if checkedCount st < maxLinksToCheck
      then checkLinksLoop w baseUrl links (checkLink w baseUrl link st)
      else st)"

definition initialLinkState :: link_state where
  "initialLinkState = \<lparr>brokenLinks = [], checkedUrls = {}, checkedCount = 0, probed = []\<rparr>"

definition checkLinksRun :: "web \<Rightarrow> string \<Rightarrow> anchor list \<Rightarrow> link_state" where
  "checkLinksRun w baseUrl links = checkLinksLoop w baseUrl links initialLinkState"

definition checkLinks :: "web \<Rightarrow> string \<Rightarrow> anchor list \<Rightarrow> BrokenLink list" where
  "checkLinks w baseUrl links = brokenLinks (checkLinksRun w baseUrl links)"

text \<open>What the loop keeps true of its variables.\<close>

definition linkInvariant :: "web \<Rightarrow> link_state \<Rightarrow> bool" where
  "linkInvariant w st \<longleftrightarrow>
     distinct (probed st)
     \<and> set (probed st) \<subseteq> checkedUrls st
     \<and> length (probed st) \<le> checkedCount st
     \<and> checkedCount st \<le> maxLinksToCheck
     \<and> distinct (map bl_url (brokenLinks st))
     \<and> (\<forall>b \<in> set (brokenLinks st).
           bl_url b \<in> set (probed st)
           \<and> recordedStatus (probe w (bl_url b)) = Some (bl_status b))
     \<and> (\<forall>u \<in> set (probed st).
           recordedStatus (probe w u) \<noteq> None \<longrightarrow> u \<in> bl_url ` set (brokenLinks st))"

text \<open>
  A URL that some anchor resolves to and that may be probed: the anchor is internal, or
  the Gate accepts the URL.
\<close>

definition admitted :: "web \<Rightarrow> string \<Rightarrow> anchor list \<Rightarrow> string \<Rightarrow> bool" where
  "admitted w baseUrl links u \<longleftrightarrow>
     (\<exists>link \<in> set links. \<exists>isInternal.
        resolveTarget w baseUrl (href link) = Some (u, isInternal)
        \<and> (isInternal \<or> \<not> isl (validateUrlString w u)))"

text \<open>Two states of the loop that differ at most in the broken links found so far.\<close>

definition sameProgress :: "link_state \<Rightarrow> link_state \<Rightarrow> bool" where
  "sameProgress s t \<longleftrightarrow>
     checkedUrls s = checkedUrls t \<and> checkedCount s = checkedCount t \<and> probed s = probed t"

subsection \<open>Example page\<close>

text \<open>
  A site whose URLs resolve by concatenation, whose hosts all resolve to a public
  address, and whose servers answer \<open>/gone\<close> with 404, \<open>/cached\<close> with a 304 axios error,
  \<open>/down\<close> with no response at all, \<open>/post-only\<close> with 405 to HEAD and 200 to GET, and
  everything else with 200.
\<close>

definition exampleWeb :: web where
  "exampleWeb =
     \<lparr>resolveUrl = (\<lambda>h base. Some (base @ h)),
      originOf = (\<lambda>u. Some (take 15 u)),
      parseUrl = (\<lambda>u. Some \<lparr>protocol = ''http:'', hostname = ''site.test''\<rparr>),
      dnsLookupOf = (\<lambda>h. Address ''93.184.216.34''),
      httpHead = (\<lambda>u. if u = ''http://site.test/gone'' then ErrorWithResponse 404
                      else if u = ''http://site.test/cached'' then ErrorWithResponse 304
                      else if u = ''http://site.test/down'' then ErrorWithoutResponse
                      else if u = ''http://site.test/post-only'' then ErrorWithResponse 405
                      else Response 200),
      httpGet = (\<lambda>u. Response 200)\<rparr>"

definition plainAnchor :: "string \<Rightarrow> anchor" where
  "plainAnchor h = \<lparr>href = h, closest = None\<rparr>"

section \<open>Category Scorers (audit.ts)\<close>

text \<open>
  The scorers read the parsed page through cheerio selections. The record \<open>page\<close> holds
  what those selections yield: element counts, attribute values, and for the elements
  whose inline style is inspected, whether the style mentions \<open>font-size\<close> and the
  number captured by \<open>/font-size:\s*(\d+)px/\<close>. Of each scorer the score is modelled;
  its lists of issue and recommendation texts are not.
\<close>

record metaTag =
  present :: bool
  content :: string

record MetaTagAnalysis =
  mt_title :: metaTag
  mt_description :: metaTag
  mt_ogImage :: metaTag
  mt_ogTitle :: metaTag
  mt_ogDescription :: metaTag
  mt_twitterCard :: metaTag
  mt_twitterTitle :: metaTag
  mt_twitterDescription :: metaTag

datatype severity = Critical | Warning | Good

record AccessibilityIssue =
  ai_type :: string
  ai_severity :: severity
  ai_wcagLevel :: "string option"

record image =
  img_alt :: "string option"
  img_src :: "string option"
  img_sizes :: "string option"
  img_srcset :: "string option"
  img_loading :: "string option"

record styled =
  styleHasFontSize :: bool
  fontSizePx :: "nat option"
  classAttr :: string

record page =
  headings :: "nat list"
  hasMain :: bool
  hasHeader :: bool
  hasNav :: bool
  hasFooter :: bool
  bodyWordCount :: nat
  images :: "image list"
  canonicalLinks :: nat
  robotsMetas :: nat
  sitemapLinks :: nat
  htmlLang :: "string option"
  schemaMarkups :: nat
  anchors :: "anchor list"
  requestElements :: nat
  viewportMetas :: "string option list"
  formCount :: nat
  unlabelledFormInputs :: nat
  interactiveElements :: "styled list"
  textElements :: "styled list"
  hasWebP :: bool
  appleTouchIcons :: nat
  screenStylesheets :: nat
  styleText :: string
  ldJsonScripts :: "string option list"

record PerformanceMetrics =
  loadTime :: rat
  contentSize :: rat
  httpRequests :: nat
  firstPaint :: rat

record AuditStatistics =
  totalLinks :: nat
  workingLinks :: int
  brokenLinkCount :: nat
  internalLinks :: nat
  externalLinks :: nat
  totalImages :: nat
  imagesWithAlt :: int
  imagesWithoutAlt :: nat

subsection \<open>SEO sub-scores\<close>

definition analyzeMetaTagsScore :: "MetaTagAnalysis \<Rightarrow> rat" where
  "analyzeMetaTagsScore metaTags =
     (let score0 = 100;
          score1 = (if \<not> present (mt_title metaTags) then score0 - 25
                    else if length (content (mt_title metaTags)) > 60 then score0 - 10
                    else if length (content (mt_title metaTags)) < 30 then score0 - 10
                    else score0);
          score2 = (if \<not> present (mt_description metaTags) then score1 - 20
                    else if length (content (mt_description metaTags)) > 160 then score1 - 8
                    else if length (content (mt_description metaTags)) < 120 then score1 - 5
                    else score1);
          score3 = (if \<not> present (mt_ogTitle metaTags) then score2 - 10 else score2);
          score4 = (if \<not> present (mt_ogDescription metaTags) then score3 - 10 else score3);
          score5 = (if \<not> present (mt_ogImage metaTags) then score4 - 15 else score4);
          score6 = (if \<not> present (mt_twitterCard metaTags) then score5 - 10 else score5)
      in max 0 score6)"

text \<open>
  The heading loop is \<open>Array.forEach\<close>: \<open>return false\<close> ends one call of the callback,
  not the loop, and it comes before \<open>previousLevel\<close> is updated. So every heading more
  than one level below \<open>previousLevel\<close> costs 5 points and leaves \<open>previousLevel\<close> as it
  was.
\<close>

fun skippedHeadings :: "nat \<Rightarrow> nat list \<Rightarrow> nat" where
  "skippedHeadings previousLevel [] = 0"
| "skippedHeadings previousLevel (currentLevel # rest) =
     (if currentLevel > previousLevel + 1 then 1 + skippedHeadings previousLevel rest
      else skippedHeadings currentLevel rest)"

definition analyzeContentStructure :: "page \<Rightarrow> rat" where
  "analyzeContentStructure p =
     (let score0 = 100;
          h1Count = length (filter (\<lambda>level. level = 1) (headings p));
          score1 = (if h1Count = 0 then score0 - 20
                    else if h1Count > 1 then score0 - 15
                    else score0);
          score2 = score1 - 5 * of_nat (skippedHeadings 0 (headings p));
          score3 = (if \<not> hasMain p then score2 - 10 else score2);
          score4 = (if \<not> hasHeader p then score3 - 8 else score3);
          score5 = (if \<not> hasNav p then score4 - 5 else score4);
          score6 = (if \<not> hasFooter p then score5 - 5 else score5);
          score7 = (if bodyWordCount p < 300 then score6 - 15 else score6);
          totalImages = int (length (images p));
          imagesWithAlt = int (length (filter (\<lambda>i. img_alt i \<noteq> None) (images p)));
          imagesWithoutAlt = totalImages - imagesWithAlt;
          score8 = (if imagesWithoutAlt > 0 then score7 - of_int (min 20 (imagesWithoutAlt * 5))
                    else score7)
      in max 0 score8)"

definition analyzeTechnicalSEO :: "page \<Rightarrow> BrokenLink list \<Rightarrow> AuditStatistics \<Rightarrow> rat" where
  "analyzeTechnicalSEO p broken statistics =
     (let score0 = 100;
          score1 = (if canonicalLinks p = 0 then score0 - 10 else score0);
          score2 = (if robotsMetas p = 0 then score1 - 5 else score1);
          score3 = (if length broken > 0 then score2 - of_nat (min 30 (length broken * 5))
                    else score2);
          score4 = (if sitemapLinks p = 0 then score3 - 8 else score3);
          score5 = (if \<not> truthy (htmlLang p) then score4 - 10 else score4);
          score6 = (if schemaMarkups p = 0 then score5 - 15 else score5);
          internalLinkRatio = (if totalLinks statistics > 0
                               then rat_of_nat (internalLinks statistics)
                                      / rat_of_nat (totalLinks statistics)
                               else 0);
          score7 = (if internalLinkRatio < 3 / 10 then score6 - 10 else score6)
      in max 0 score7)"

definition analyzePerformanceScore :: "PerformanceMetrics \<Rightarrow> rat" where
  "analyzePerformanceScore performanceMetrics =
     (let score0 = 100;
          score1 = (if loadTime performanceMetrics > 3000 then score0 - 30
                    else if loadTime performanceMetrics > 2000 then score0 - 15
                    else score0);
          score2 = (if firstPaint performanceMetrics > 2000 then score1 - 20 else score1);
          score3 = (if contentSize performanceMetrics > 1000000 then score2 - 15 else score2);
          score4 = (if httpRequests performanceMetrics > 50 then score3 - 10 else score3)
      in max 0 score4)"

definition countSeverity :: "severity \<Rightarrow> AccessibilityIssue list \<Rightarrow> nat" where
  "countSeverity s issues = length (filter (\<lambda>issue. ai_severity issue = s) issues)"

definition analyzeUserExperience :: "page \<Rightarrow> AccessibilityIssue list \<Rightarrow> rat" where
  "analyzeUserExperience p accessibilityIssues =
     (let score0 = 100;
          score1 = (if length (viewportMetas p) = 0 then score0 - 25 else score0);
          criticalA11yIssues = countSeverity Critical accessibilityIssues;
          warningA11yIssues = countSeverity Warning accessibilityIssues;
          score2 = score1 - of_nat ((criticalA11yIssues * 15) + (warningA11yIssues * 5));
          score3 = (if formCount p > 0 \<and> unlabelledFormInputs p > 0 then score2 - 15 else score2)
      in max 0 score3)"

subsection \<open>calculateStatistics and calculateAdvancedSEOScoring\<close>

definition isSkippedHref :: "string \<Rightarrow> bool" where
  "isSkippedHref h \<longleftrightarrow>
     h = [] \<or> startsWith h ''#'' \<or> startsWith h ''mailto:'' \<or> startsWith h ''tel:''"

definition isExternalHref :: "string \<Rightarrow> bool" where
  "isExternalHref h \<longleftrightarrow>
     \<not> (startsWith h ''/'' \<or> startsWith h ''.'') \<and> startsWith h ''http''"

definition calculateStatistics :: "page \<Rightarrow> BrokenLink list \<Rightarrow> AuditStatistics" where
  "calculateStatistics p broken =
     (let counted = filter (\<lambda>h. \<not> isSkippedHref h) (map href (anchors p));
          withoutAlt = length (filter (\<lambda>i. \<not> truthy (img_alt i)) (images p))
      in \<lparr>totalLinks = length (anchors p),
          workingLinks = int (length (anchors p)) - int (length broken),
          brokenLinkCount = length broken,
          internalLinks = length (filter (\<lambda>h. \<not> isExternalHref h) counted),
          externalLinks = length (filter isExternalHref counted),
          totalImages = length (images p),
          imagesWithAlt = int (length (images p)) - int withoutAlt,
          imagesWithoutAlt = withoutAlt\<rparr>)"

record SEOCategoryScores =
  seo_metaTags :: rat
  seo_contentStructure :: rat
  seo_technicalSEO :: rat
  seo_performance :: rat
  seo_userExperience :: rat

record SEOScoring =
  seo_overallScore :: rat
  seo_categoryScores :: SEOCategoryScores

definition calculateAdvancedSEOScoring ::
  "page \<Rightarrow> MetaTagAnalysis \<Rightarrow> AccessibilityIssue list \<Rightarrow> BrokenLink list
     \<Rightarrow> PerformanceMetrics \<Rightarrow> AuditStatistics \<Rightarrow> SEOScoring" where
  "calculateAdvancedSEOScoring p metaTags accessibilityIssues broken performanceMetrics statistics =
     (let metaTagsScore = analyzeMetaTagsScore metaTags;
          contentStructureScore = analyzeContentStructure p;
          technicalSEOScore = analyzeTechnicalSEO p broken statistics;
          performanceScore = analyzePerformanceScore performanceMetrics;
          userExperienceScore = analyzeUserExperience p accessibilityIssues;
          overallScore = Math_round
            ((metaTagsScore * (30 / 100)) + (contentStructureScore * (25 / 100))
             + (technicalSEOScore * (20 / 100)) + (performanceScore * (15 / 100))
             + (userExperienceScore * (10 / 100)))
      in \<lparr>seo_overallScore = overallScore,
          seo_categoryScores =
            \<lparr>seo_metaTags = metaTagsScore, seo_contentStructure = contentStructureScore,
             seo_technicalSEO = technicalSEOScore, seo_performance = performanceScore,
             seo_userExperience = userExperienceScore\<rparr>\<rparr>)"

subsection \<open>calculateAccessibilityScoring\<close>

datatype compliance = LevelA | LevelAA | LevelAAA | LevelNone

record AccessibilityCategoryScores =
  perceivable :: rat
  operable :: rat
  understandable :: rat
  robust :: rat

record AccessibilityScoring =
  acc_overallScore :: rat
  wcagComplianceLevel :: compliance
  compliancePercentage :: rat
  acc_categoryScores :: AccessibilityCategoryScores
  criticalIssues :: nat
  warningIssues :: nat
  passedChecks :: nat
  totalChecks :: nat

definition calculateCategoryScore :: "AccessibilityIssue list \<Rightarrow> string list \<Rightarrow> rat" where
  "calculateCategoryScore issues categoryTypes =
     (let categoryIssues = filter (\<lambda>issue. ai_type issue \<in> set categoryTypes) issues;
          criticalInCategory = countSeverity Critical categoryIssues;
          warningInCategory = countSeverity Warning categoryIssues;
          maxScore = 100;
          penalty = of_nat ((criticalInCategory * 20) + (warningInCategory * 10))
      in max 0 (maxScore - penalty))"

definition calculateAccessibilityScoring :: "AccessibilityIssue list \<Rightarrow> AccessibilityScoring" where
  "calculateAccessibilityScoring issues =
     (let critical = countSeverity Critical issues;
          warning = countSeverity Warning issues;
          passed = countSeverity Good issues;
          perceivableScore = calculateCategoryScore issues
            [''Missing Alt Text'', ''Images with Empty Alt Text'', ''Potential Color Contrast Issues''];
          operableScore = calculateCategoryScore issues
            [''Interactive Elements Not Keyboard Accessible'', ''Missing Skip Links''];
          understandableScore = calculateCategoryScore issues
            [''Missing Language Declaration'', ''Missing Page Title''];
          robustScore = calculateCategoryScore issues
            [''Duplicate IDs'', ''Buttons Without Accessible Names'', ''Form Accessibility''];
          maxPossibleScore = 100;
          criticalPenalty = of_nat (critical * 15);
          warningPenalty = of_nat (warning * 5);
          overallScore = max 0 (maxPossibleScore - criticalPenalty - warningPenalty);
          levelAIssues = length (filter (\<lambda>issue. ai_wcagLevel issue = Some ''A''
                                    \<and> ai_severity issue = Critical) issues);
          levelAAIssues = length (filter (\<lambda>issue. ai_wcagLevel issue = Some ''AA''
                                    \<and> ai_severity issue = Critical) issues);
          level = (if levelAIssues = 0 \<and> levelAAIssues = 0 then LevelAA
                   else if levelAIssues = 0 then LevelA
                   else LevelNone);
          totalPossibleIssues = 10;
          actualIssues = of_nat (critical + warning);
          percentage = max 0 (Math_round (((totalPossibleIssues - actualIssues)
                                            / totalPossibleIssues) * 100))
      in \<lparr>acc_overallScore = overallScore,
          wcagComplianceLevel = level,
          compliancePercentage = percentage,
          acc_categoryScores =
            \<lparr>perceivable = perceivableScore, operable = operableScore,
             understandable = understandableScore, robust = robustScore\<rparr>,
          criticalIssues = critical,
          warningIssues = warning,
          passedChecks = passed,
          totalChecks = length issues\<rparr>)"

subsection \<open>analyzeMobileFriendliness\<close>

datatype viewport_status = ViewportGood | ViewportWarning | ViewportError

definition analyzeViewport :: "page \<Rightarrow> viewport_status" where
  "analyzeViewport p =
     (if length (viewportMetas p) = 0 then ViewportError
      else
        let viewportContent = (case hd (viewportMetas p) of Some c \<Rightarrow> c | None \<Rightarrow> []);
            hasWidth = includesText viewportContent ''width=device-width'';
            hasInitialScale = includesText viewportContent ''initial-scale=1''
        in if \<not> hasWidth \<or> \<not> hasInitialScale then ViewportWarning else ViewportGood)"

definition touchTargetTooSmall :: "styled \<Rightarrow> bool" where
  "touchTargetTooSmall element =
     (if styleHasFontSize element \<and> fontSizePx element \<noteq> None
      then the (fontSizePx element) < 16
      else includesText (classAttr element) ''btn-sm''
           \<or> includesText (classAttr element) ''small''
           \<or> includesText (classAttr element) ''xs'')"

definition analyzeTouchTargets :: "page \<Rightarrow> rat" where
  "analyzeTouchTargets p =
     (let tooSmall = length (filter touchTargetTooSmall (interactiveElements p));
          adequateSize = length (filter (\<lambda>e. \<not> touchTargetTooSmall e) (interactiveElements p));
          totalElements = adequateSize + tooSmall;
          score0 = 100;
          score1 = (if tooSmall > 0
                    then max 0 (100 - (rat_of_nat tooSmall / rat_of_nat totalElements * 100))
                    else score0);
          score2 = (if totalElements = 0 then 50 else score1)
      in Math_round score2)"

definition fontSizesOf :: "styled \<Rightarrow> nat list" where
  "fontSizesOf element =
     (if styleHasFontSize element
      then (case fontSizePx element of Some fontSize \<Rightarrow> [fontSize] | None \<Rightarrow> [])
      else [16])"

definition isSmallText :: "styled \<Rightarrow> bool" where
  "isSmallText element \<longleftrightarrow>
     styleHasFontSize element
     \<and> (case fontSizePx element of Some fontSize \<Rightarrow> fontSize < 16 | None \<Rightarrow> False)"

definition analyzeTextReadability :: "page \<Rightarrow> rat" where
  "analyzeTextReadability p =
     (let fontSizes = concat (map fontSizesOf (textElements p));
          smallTextElements = length (filter isSmallText (textElements p));
          averageFontSize = (if length fontSizes > 0
                             then rat_of_nat (sum_list fontSizes) / rat_of_nat (length fontSizes)
                             else 16);
          score0 = 100;
          score1 = (if smallTextElements > 0
                    then max 0 (100 - (rat_of_nat smallTextElements
                                         / rat_of_nat (length (textElements p)) * 100))
                    else score0);
          score2 = (if averageFontSize < 14 then max (score1 - 20) 0 else score1)
      in Math_round score2)"

definition imageOptimized :: "image \<Rightarrow> bool" where
  "imageOptimized i \<longleftrightarrow>
     truthy (img_sizes i) \<or> truthy (img_srcset i) \<or> img_loading i = Some ''lazy''"

definition analyzeMobilePerformance :: "page \<Rightarrow> PerformanceMetrics \<Rightarrow> rat" where
  "analyzeMobilePerformance p performanceMetrics =
     (let optimizedImages = length (filter imageOptimized (images p));
          imageOptimization = (if length (images p) > 0
                               then (rat_of_nat optimizedImages / rat_of_nat (length (images p))) * 100
                               else 100);
          score0 = 100;
          score1 = (if loadTime performanceMetrics > 5000 then score0 - 30 else score0);
          score2 = (if contentSize performanceMetrics > 2000000 then score1 - 20 else score1);
          score3 = (if imageOptimization < 50 then score2 - 25 else score2);
          score4 = (if \<not> hasWebP p \<and> length (images p) > 0 then score3 - 10 else score3)
      in max 0 (Math_round score4))"

definition analyzeMobileSEO :: "page \<Rightarrow> rat" where
  "analyzeMobileSEO p =
     (let viewportMeta = length (viewportMetas p) > 0;
          appleTouchIcon = appleTouchIcons p > 0;
          mobileFriendlyMeta = viewportMeta;
          responsiveDesign =
            list_ex (\<lambda>b. b)
              [screenStylesheets p > 0,
               length (viewportMetas p) > 0,
               includesText (styleText p) ''@media'' \<or> includesText (styleText p) ''media''];
          score0 = 100;
          score1 = (if \<not> mobileFriendlyMeta then score0 - 30 else score0);
          score2 = (if \<not> responsiveDesign then score1 - 25 else score1);
          score3 = (if \<not> appleTouchIcon then score2 - 10 else score2);
          hasMobileStructuredData =
            list_ex (\<lambda>script.
                let scriptContent = (case script of Some c \<Rightarrow> c | None \<Rightarrow> [])
                in includesText scriptContent ''MobileApplication''
                   \<or> includesText scriptContent ''mobileUrl'')
              (ldJsonScripts p);
          score4 = (if \<not> hasMobileStructuredData \<and> length (ldJsonScripts p) > 0
                    then score3 - 15 else score3)
      in max 0 (Math_round score4))"

record MobileAnalysis =
  mob_overallScore :: rat
  mob_viewport :: viewport_status
  mob_touchTargets :: rat
  mob_textReadability :: rat
  mob_mobilePerformance :: rat
  mob_mobileSEO :: rat

definition analyzeMobileFriendliness :: "page \<Rightarrow> PerformanceMetrics \<Rightarrow> MobileAnalysis" where
  "analyzeMobileFriendliness p performanceMetrics =
     (let viewport = analyzeViewport p;
          touchTargets = analyzeTouchTargets p;
          textReadability = analyzeTextReadability p;
          mobilePerformance = analyzeMobilePerformance p performanceMetrics;
          mobileSEO = analyzeMobileSEO p;
          overallScore = Math_round
            ((if viewport = ViewportGood then 20 else if viewport = ViewportWarning then 10 else 0)
             + (touchTargets * (25 / 100)) + (textReadability * (20 / 100))
             + (mobilePerformance * (20 / 100)) + (mobileSEO * (15 / 100)))
      in \<lparr>mob_overallScore = overallScore,
          mob_viewport = viewport,
          mob_touchTargets = touchTargets,
          mob_textReadability = textReadability,
          mob_mobilePerformance = mobilePerformance,
          mob_mobileSEO = mobileSEO\<rparr>)"

subsection \<open>auditWebsite, after the fetch and the link check\<close>

record AuditScores =
  overallScoreOf :: rat
  seoScoring :: SEOScoring
  accessibilityScoring :: AccessibilityScoring
  mobileAnalysis :: MobileAnalysis

text \<open>
  The scoring steps of \<open>auditWebsite\<close>, from the parsed page, the meta tags, the
  accessibility issues, the broken links, and the time and size of the fetch.
\<close>

definition auditWebsite ::
  "page \<Rightarrow> MetaTagAnalysis \<Rightarrow> AccessibilityIssue list \<Rightarrow> BrokenLink list \<Rightarrow> rat \<Rightarrow> rat
     \<Rightarrow> AuditScores" where
  "auditWebsite p metaTags accessibilityIssues broken fetchTime fetchSize =
     (let performanceMetrics =
            \<lparr>loadTime = fetchTime, contentSize = fetchSize, httpRequests = requestElements p,
             firstPaint = fetchTime * (6 / 10)\<rparr>;
          statistics = calculateStatistics p broken;
          seo = calculateAdvancedSEOScoring p metaTags accessibilityIssues broken
                  performanceMetrics statistics;
          mobile = analyzeMobileFriendliness p performanceMetrics
      in \<lparr>overallScoreOf = seo_overallScore seo,
          seoScoring = seo,
          accessibilityScoring = calculateAccessibilityScoring accessibilityIssues,
          mobileAnalysis = mobile\<rparr>)"

definition inScoreRange :: "rat \<Rightarrow> bool" where
  "inScoreRange x \<longleftrightarrow> 0 \<le> x \<and> x \<le> 100"

subsection \<open>Example page for the scorers\<close>

definition barePage :: page where
  "barePage =
     \<lparr>headings = [3, 3, 5], hasMain = False, hasHeader = False, hasNav = False,
      hasFooter = False, bodyWordCount = 12,
      images = [\<lparr>img_alt = None, img_src = Some ''a.png'', img_sizes = None,
                 img_srcset = None, img_loading = None\<rparr>],
      canonicalLinks = 0, robotsMetas = 0, sitemapLinks = 0, htmlLang = None,
      schemaMarkups = 0, anchors = [], requestElements = 80, viewportMetas = [],
      formCount = 1, unlabelledFormInputs = 2,
      interactiveElements = [\<lparr>styleHasFontSize = True, fontSizePx = Some 10, classAttr = []\<rparr>],
      textElements = [\<lparr>styleHasFontSize = True, fontSizePx = Some 9, classAttr = []\<rparr>],
      hasWebP = False, appleTouchIcons = 0, screenStylesheets = 0, styleText = [],
      ldJsonScripts = [Some ''{}'']\<rparr>"

definition absentTag :: metaTag where
  "absentTag = \<lparr>present = False, content = []\<rparr>"

definition noMetaTags :: MetaTagAnalysis where
  "noMetaTags =
     \<lparr>mt_title = absentTag, mt_description = absentTag, mt_ogImage = absentTag,
      mt_ogTitle = absentTag, mt_ogDescription = absentTag, mt_twitterCard = absentTag,
      mt_twitterTitle = absentTag, mt_twitterDescription = absentTag\<rparr>"

definition criticalIssue :: AccessibilityIssue where
  "criticalIssue = \<lparr>ai_type = ''Duplicate IDs'', ai_severity = Critical, ai_wcagLevel = Some ''A''\<rparr>"

section \<open>Properties of the Trend Analysis Engine\<close>

subsection \<open>Arithmetic helpers\<close>

lemma floor_rat_divide_numeral [simp]:
  "\<lfloor>(numeral a :: rat) / numeral b\<rfloor> = numeral a div numeral b"
  by (metis floor_divide_of_int_eq of_int_numeral)

lemma floor_rat_minus_divide_numeral [simp]:
  "\<lfloor>- ((numeral a :: rat) / numeral b)\<rfloor> = - numeral a div numeral b"
  by (metis floor_divide_of_int_eq of_int_numeral of_int_minus minus_divide_left)

lemma ceiling_rat_divide_numeral [simp]:
  "\<lceil>(numeral a :: rat) / numeral b\<rceil> = - (- numeral a div numeral b)"
  by (simp add: ceiling_def)

subsection \<open>The store\<close>

lemma createOrUpdate_fields:
  "ta_historicalTrackingId (fst (createOrUpdateTrendAnalysis e st a)) = ins_historicalTrackingId a"
  "ta_timePeriod (fst (createOrUpdateTrendAnalysis e st a)) = ins_timePeriod a"
  "ta_overallTrend (fst (createOrUpdateTrendAnalysis e st a)) = ins_overallTrend a"
  "ta_trendStrength (fst (createOrUpdateTrendAnalysis e st a)) = ins_trendStrength a"
  "ta_keyInsights (fst (createOrUpdateTrendAnalysis e st a)) = ins_keyInsights a"
  "ta_improvements (fst (createOrUpdateTrendAnalysis e st a)) = ins_improvements a"
  "ta_regressions (fst (createOrUpdateTrendAnalysis e st a)) = ins_regressions a"
  "ta_recommendations (fst (createOrUpdateTrendAnalysis e st a)) = ins_recommendations a"
  "ta_confidenceScore (fst (createOrUpdateTrendAnalysis e st a)) = ins_confidenceScore a"
  "ta_analysisDate (fst (createOrUpdateTrendAnalysis e st a)) = now e"
  by (simp_all add: createOrUpdateTrendAnalysis_def Let_def split: option.splits)

lemma createOrUpdate_stored:
  "trendAnalyses (snd (createOrUpdateTrendAnalysis e st a)) =
     (trendAnalyses st)(trendKey (ins_historicalTrackingId a) (ins_timePeriod a)
        \<mapsto> fst (createOrUpdateTrendAnalysis e st a))"
  by (simp add: createOrUpdateTrendAnalysis_def Let_def split: option.splits)

lemma createOrUpdate_id:
  "ta_id (fst (createOrUpdateTrendAnalysis e st a)) =
     (case getTrendAnalysis st (ins_historicalTrackingId a) (ins_timePeriod a) of
        Some existing \<Rightarrow> ta_id existing | None \<Rightarrow> uuid e)"
  by (simp add: createOrUpdateTrendAnalysis_def getTrendAnalysis_def Let_def split: option.splits)

lemma trendKey_inj:
  assumes "trendKey t p = trendKey t' p'"
  shows "t = t' \<and> p = p'"
proof -
  have "rev (trendKey t p) = rev (trendKey t' p')"
    using assms by simp
  then show ?thesis
    by (cases p; cases p'; simp add: trendKey_def)
qed

lemma keyed_empty: "keyed emptyStorage"
  by (simp add: keyed_def emptyStorage_def)

lemma keyed_step: "keyed st \<Longrightarrow> keyed (snd (createOrUpdateTrendAnalysis e st a))"
  unfolding keyed_def createOrUpdate_stored
  by (auto simp: createOrUpdate_fields)

lemma keyed_run: "keyed st \<Longrightarrow> keyed (runTrendCalls st calls)"
  by (induction calls arbitrary: st) (auto simp: keyed_step)

lemma recordsFor_keyed:
  assumes "keyed st"
  shows "recordsFor st t p = set_option (trendAnalyses st (trendKey t p))"
proof (rule set_eqI)
  fix a
  show "a \<in> recordsFor st t p \<longleftrightarrow> a \<in> set_option (trendAnalyses st (trendKey t p))"
  proof
    assume "a \<in> recordsFor st t p"
    then obtain k where k: "trendAnalyses st k = Some a"
      and eq: "ta_historicalTrackingId a = t" "ta_timePeriod a = p"
      by (auto simp: recordsFor_def ran_def)
    from assms k have "k = trendKey (ta_historicalTrackingId a) (ta_timePeriod a)"
      by (simp add: keyed_def)
    with k eq show "a \<in> set_option (trendAnalyses st (trendKey t p))"
      by simp
  next
    assume "a \<in> set_option (trendAnalyses st (trendKey t p))"
    then have k: "trendAnalyses st (trendKey t p) = Some a"
      by simp
    with assms have "trendKey t p = trendKey (ta_historicalTrackingId a) (ta_timePeriod a)"
      by (simp add: keyed_def)
    then have "ta_historicalTrackingId a = t \<and> ta_timePeriod a = p"
      using trendKey_inj by metis
    with k show "a \<in> recordsFor st t p"
      by (auto simp: recordsFor_def ran_def)
  qed
qed

text \<open>
  C8. In every state the store reaches from the empty one through calls of
  \<open>createOrUpdateTrendAnalysis\<close>, any two trend records of one (trackingId, timePeriod)
  pair are the same record. A further call leaves exactly one record for its pair, the
  analysis just stored, and leaves the records of every other pair as they were.
\<close>

theorem trend_store_one_record_per_pair:
  "(\<forall>a \<in> recordsFor (runTrendCalls emptyStorage calls) trackingId tp.
      \<forall>b \<in> recordsFor (runTrendCalls emptyStorage calls) trackingId tp. a = b)
   \<and> recordsFor (snd (createOrUpdateTrendAnalysis e (runTrendCalls emptyStorage calls) a))
        (ins_historicalTrackingId a) (ins_timePeriod a)
      = {fst (createOrUpdateTrendAnalysis e (runTrendCalls emptyStorage calls) a)}
   \<and> ((trackingId, tp) \<noteq> (ins_historicalTrackingId a, ins_timePeriod a) \<longrightarrow>
        recordsFor (snd (createOrUpdateTrendAnalysis e (runTrendCalls emptyStorage calls) a))
          trackingId tp
        = recordsFor (runTrendCalls emptyStorage calls) trackingId tp)"
proof -
  let ?st = "runTrendCalls emptyStorage calls"
  let ?st' = "snd (createOrUpdateTrendAnalysis e ?st a)"
  have k: "keyed ?st" by (simp add: keyed_run keyed_empty)
  then have k': "keyed ?st'" by (rule keyed_step)
  have one: "\<forall>x \<in> recordsFor ?st trackingId tp. \<forall>y \<in> recordsFor ?st trackingId tp. x = y"
    by (auto simp: recordsFor_keyed [OF k])
  have repl: "recordsFor ?st' (ins_historicalTrackingId a) (ins_timePeriod a)
      = {fst (createOrUpdateTrendAnalysis e ?st a)}"
    by (simp add: recordsFor_keyed [OF k'] createOrUpdate_stored)
  have other: "(trackingId, tp) \<noteq> (ins_historicalTrackingId a, ins_timePeriod a) \<longrightarrow>
        recordsFor ?st' trackingId tp = recordsFor ?st trackingId tp"
    using trendKey_inj [of trackingId tp "ins_historicalTrackingId a" "ins_timePeriod a"]
    by (auto simp: recordsFor_keyed [OF k'] recordsFor_keyed [OF k] createOrUpdate_stored)
  from one repl other show ?thesis by blast
qed

theorem trend_store_one_record_per_pair_witness:
  "recordsFor (runTrendCalls emptyStorage
          [(\<lparr>now = 10, uuid = ''u1''\<rparr>, analysisOf ''t1'' P7d Stable 10),
           (\<lparr>now = 20, uuid = ''u2''\<rparr>, analysisOf ''t1'' P7d Improving 80)]) ''t1'' P7d
     = {fst (createOrUpdateTrendAnalysis \<lparr>now = 20, uuid = ''u2''\<rparr>
          (runTrendCalls emptyStorage
             [(\<lparr>now = 10, uuid = ''u1''\<rparr>, analysisOf ''t1'' P7d Stable 10)])
          (analysisOf ''t1'' P7d Improving 80))}
   \<and> ta_id (fst (createOrUpdateTrendAnalysis \<lparr>now = 20, uuid = ''u2''\<rparr>
          (runTrendCalls emptyStorage
             [(\<lparr>now = 10, uuid = ''u1''\<rparr>, analysisOf ''t1'' P7d Stable 10)])
          (analysisOf ''t1'' P7d Improving 80))) = ''u1''
   \<and> ta_overallTrend (fst (createOrUpdateTrendAnalysis \<lparr>now = 20, uuid = ''u2''\<rparr>
          (runTrendCalls emptyStorage
             [(\<lparr>now = 10, uuid = ''u1''\<rparr>, analysisOf ''t1'' P7d Stable 10)])
          (analysisOf ''t1'' P7d Improving 80))) = Improving"
proof -
  let ?c1 = "(\<lparr>now = 10, uuid = ''u1''\<rparr>, analysisOf ''t1'' P7d Stable 10)"
  let ?e2 = "\<lparr>now = 20, uuid = ''u2''\<rparr>"
  let ?a2 = "analysisOf ''t1'' P7d Improving 80"
  let ?r = "fst (createOrUpdateTrendAnalysis ?e2 (runTrendCalls emptyStorage [?c1]) ?a2)"
  have run: "runTrendCalls emptyStorage [?c1, (?e2, ?a2)]
           = snd (createOrUpdateTrendAnalysis ?e2 (runTrendCalls emptyStorage [?c1]) ?a2)"
    by simp
  have pair: "ins_historicalTrackingId ?a2 = ''t1''" "ins_timePeriod ?a2 = P7d"
    by (simp_all add: analysisOf_def)
  have records: "recordsFor (runTrendCalls emptyStorage [?c1, (?e2, ?a2)]) ''t1'' P7d = {?r}"
    using trend_store_one_record_per_pair [of "[?c1]" "''t1''" P7d ?e2 ?a2]
    unfolding run pair by blast
  have r: "ta_id ?r = ''u1'' \<and> ta_overallTrend ?r = Improving"
    by (simp add: createOrUpdateTrendAnalysis_def emptyStorage_def analysisOf_def trendKey_def
        Let_def)
  show ?thesis
    using records r by blast
qed

subsection \<open>Short histories\<close>

lemma sliceFrom_last5_short: "length xs \<le> 5 \<Longrightarrow> sliceFrom xs (- 5) = xs"
  by (simp add: sliceFrom_def sliceIndex_def)

lemma slice_first5_short: "length xs \<le> 5 \<Longrightarrow> slice xs 0 5 = xs"
  by (simp add: slice_def sliceIndex_def)

lemma improvementOf_same:
  "0 < threshold \<Longrightarrow> m_recent m = m_baseline m \<Longrightarrow> improvementOf threshold m = None"
  by (simp add: improvementOf_def split: option.splits)

lemma regressionOf_same:
  "0 < threshold \<Longrightarrow> m_recent m = m_baseline m \<Longrightarrow> regressionOf threshold m = None"
  by (simp add: regressionOf_def split: option.splits)

lemma map_filter_all_None: "(\<And>x. x \<in> set xs \<Longrightarrow> f x = None) \<Longrightarrow> List.map_filter f xs = []"
  by (induction xs) (simp_all add: List.map_filter_simps)

lemma metricsOf_same: "m \<in> set (metricsOf a a) \<Longrightarrow> m_recent m = m_baseline m"
  by (auto simp: metricsOf_def)

lemma identify_short:
  assumes "length history \<le> 5" and "0 < threshold"
  shows "identifyImprovements history threshold = []"
    and "identifyRegressions history threshold = []"
proof -
  have len: "length (sortByRecordedAt history) \<le> 5"
    using assms(1) by (simp add: sortByRecordedAt_def)
  show "identifyImprovements history threshold = []"
    unfolding identifyImprovements_def Let_def
    by (simp add: sliceFrom_last5_short [OF len] slice_first5_short [OF len]
        map_filter_all_None improvementOf_same [OF assms(2)] metricsOf_same)
  show "identifyRegressions history threshold = []"
    unfolding identifyRegressions_def Let_def
    by (simp add: sliceFrom_last5_short [OF len] slice_first5_short [OF len]
        map_filter_all_None regressionOf_same [OF assms(2)] metricsOf_same)
qed

text \<open>
  C9. With at most five records and a positive threshold, \<open>identifyImprovements\<close> and
  \<open>identifyRegressions\<close> both return the empty list: the last-five and the first-five
  window are the same records, so every change is 0. In particular a 7d analysis on its
  minimum of 3 points and a 30d analysis on its minimum of 5 points flag nothing.
\<close>

theorem no_significant_change_within_five_records:
  "(length history \<le> 5 \<and> 0 < threshold \<longrightarrow>
      identifyImprovements history threshold = [] \<and> identifyRegressions history threshold = [])
   \<and> (length history = minimumDataPoints (TREND_PARAMS P7d) \<longrightarrow>
      identifyImprovements history (significanceThreshold (TREND_PARAMS P7d)) = []
      \<and> identifyRegressions history (significanceThreshold (TREND_PARAMS P7d)) = [])
   \<and> (length history = minimumDataPoints (TREND_PARAMS P30d) \<longrightarrow>
      identifyImprovements history (significanceThreshold (TREND_PARAMS P30d)) = []
      \<and> identifyRegressions history (significanceThreshold (TREND_PARAMS P30d)) = [])"
  using identify_short [of history threshold] identify_short [of history 5]
    identify_short [of history 8]
  by simp

theorem no_significant_change_within_five_records_witness:
  "length [historyPoint 1 40, historyPoint 2 60, historyPoint 3 95]
     = minimumDataPoints (TREND_PARAMS P7d)
   \<and> (0::rat) < significanceThreshold (TREND_PARAMS P7d)
   \<and> identifyImprovements [historyPoint 1 40, historyPoint 2 60, historyPoint 3 95]
         (significanceThreshold (TREND_PARAMS P7d)) = []
   \<and> identifyRegressions [historyPoint 1 40, historyPoint 2 60, historyPoint 3 95]
         (significanceThreshold (TREND_PARAMS P7d)) = []"
  using no_significant_change_within_five_records
    [of "[historyPoint 1 40, historyPoint 2 60, historyPoint 3 95]" 5]
  by simp

subsection \<open>Stable trends\<close>

text \<open>
  C10. When \<open>detectOverallTrend\<close> answers stable, \<open>calculateTrendStrength\<close> answers
  weak, and a trend analysis returned by \<open>generateTrendAnalysis\<close> whose overall trend is
  stable has the strength weak.
\<close>

theorem stable_trend_is_weak:
  "(detectOverallTrend history = Stable \<longrightarrow>
      calculateTrendStrength history (detectOverallTrend history) = Weak)
   \<and> (ta_overallTrend (fst (generateTrendAnalysis hs cal e st trackingId tp)) = Stable \<longrightarrow>
      ta_trendStrength (fst (generateTrendAnalysis hs cal e st trackingId tp)) = Weak)"
proof
  show "detectOverallTrend history = Stable \<longrightarrow>
      calculateTrendStrength history (detectOverallTrend history) = Weak"
    by (simp add: calculateTrendStrength_def)
next
  show "ta_overallTrend (fst (generateTrendAnalysis hs cal e st trackingId tp)) = Stable \<longrightarrow>
      ta_trendStrength (fst (generateTrendAnalysis hs cal e st trackingId tp)) = Weak"
    by (simp add: generateTrendAnalysis_def createInsufficientDataAnalysis_def Let_def
        createOrUpdate_fields calculateTrendStrength_def)
qed

theorem stable_trend_is_weak_witness:
  "detectOverallTrend [historyPoint 1 50, historyPoint 2 70, historyPoint 3 52] = Stable
   \<and> calculateTrendStrength [historyPoint 1 50, historyPoint 2 70, historyPoint 3 52] Stable = Weak
   \<and> ta_overallTrend (fst (generateTrendAnalysis quietHeuristics plainCalendar
         \<lparr>now = 1000, uuid = ''u1''\<rparr>
         (storageWith [historyPoint 1 50, historyPoint 2 70, historyPoint 3 52]) ''t1'' P7d)) = Stable
   \<and> ta_trendStrength (fst (generateTrendAnalysis quietHeuristics plainCalendar
         \<lparr>now = 1000, uuid = ''u1''\<rparr>
         (storageWith [historyPoint 1 50, historyPoint 2 70, historyPoint 3 52]) ''t1'' P7d)) = Weak"
proof -
  have d: "detectOverallTrend [historyPoint 1 50, historyPoint 2 70, historyPoint 3 52] = Stable"
    by (simp add: detectOverallTrend_def sortByRecordedAt_def historyPoint_def sliceFrom_def
        slice_def sliceIndex_def calculateAverageScores_def)
  have h: "getPerformanceHistoryByDateRange
             (storageWith [historyPoint 1 50, historyPoint 2 70, historyPoint 3 52]) ''t1''
             (startDate (calculateDateRange plainCalendar 1000 P7d))
             (endDate (calculateDateRange plainCalendar 1000 P7d))
           = [historyPoint 1 50, historyPoint 2 70, historyPoint 3 52]"
    by (simp add: getPerformanceHistoryByDateRange_def storageWith_def calculateDateRange_def
        plainCalendar_def historyPoint_def)
  have g: "ta_overallTrend (fst (generateTrendAnalysis quietHeuristics plainCalendar
         \<lparr>now = 1000, uuid = ''u1''\<rparr>
         (storageWith [historyPoint 1 50, historyPoint 2 70, historyPoint 3 52]) ''t1'' P7d)) = Stable"
    by (simp add: generateTrendAnalysis_def Let_def h d createOrUpdate_fields)
  show ?thesis
    using d g stable_trend_is_weak
      [of "[historyPoint 1 50, historyPoint 2 70, historyPoint 3 52]" quietHeuristics
          plainCalendar "\<lparr>now = 1000, uuid = ''u1''\<rparr>"
          "storageWith [historyPoint 1 50, historyPoint 2 70, historyPoint 3 52]" "''t1''" P7d]
    by simp
qed

subsection \<open>Insufficient data\<close>

text \<open>
  C5. When the period's date range holds fewer records than the period's minimum (3, 5,
  8 and 12 for 7d, 30d, 90d and 1y), \<open>generateTrendAnalysis\<close> returns, and stores, the
  fixed analysis: trend stable, strength weak, no improvements, no regressions, confidence
  score 10.
\<close>

theorem insufficient_data_analysis:
  assumes "length (getPerformanceHistoryByDateRange st trackingId
              (startDate (calculateDateRange cal (now e) tp))
              (endDate (calculateDateRange cal (now e) tp)))
           < minimumDataPoints (TREND_PARAMS tp)"
  shows "ta_overallTrend (fst (generateTrendAnalysis hs cal e st trackingId tp)) = Stable
       \<and> ta_trendStrength (fst (generateTrendAnalysis hs cal e st trackingId tp)) = Weak
       \<and> ta_improvements (fst (generateTrendAnalysis hs cal e st trackingId tp)) = []
       \<and> ta_regressions (fst (generateTrendAnalysis hs cal e st trackingId tp)) = []
       \<and> ta_confidenceScore (fst (generateTrendAnalysis hs cal e st trackingId tp)) = 10
       \<and> getTrendAnalysis (snd (generateTrendAnalysis hs cal e st trackingId tp)) trackingId tp
           = Some (fst (generateTrendAnalysis hs cal e st trackingId tp))
       \<and> map (\<lambda>p. minimumDataPoints (TREND_PARAMS p)) [P7d, P30d, P90d, P1y] = [3, 5, 8, 12]"
proof -
  have g: "generateTrendAnalysis hs cal e st trackingId tp
         = createInsufficientDataAnalysis e st trackingId tp"
    using assms by (simp add: generateTrendAnalysis_def Let_def)
  show ?thesis
    unfolding g createInsufficientDataAnalysis_def
    by (simp add: createOrUpdate_fields createOrUpdate_stored getTrendAnalysis_def)
qed

theorem insufficient_data_analysis_witness:
  "length (getPerformanceHistoryByDateRange
             (storageWith [historyPoint 1 50, historyPoint 2 90]) ''t1''
             (startDate (calculateDateRange plainCalendar (now \<lparr>now = 1000, uuid = ''u1''\<rparr>) P30d))
             (endDate (calculateDateRange plainCalendar (now \<lparr>now = 1000, uuid = ''u1''\<rparr>) P30d)))
     < minimumDataPoints (TREND_PARAMS P30d)
   \<and> ta_confidenceScore (fst (generateTrendAnalysis quietHeuristics plainCalendar
         \<lparr>now = 1000, uuid = ''u1''\<rparr> (storageWith [historyPoint 1 50, historyPoint 2 90])
         ''t1'' P30d)) = 10
   \<and> ta_overallTrend (fst (generateTrendAnalysis quietHeuristics plainCalendar
         \<lparr>now = 1000, uuid = ''u1''\<rparr> (storageWith [historyPoint 1 50, historyPoint 2 90])
         ''t1'' P30d)) = Stable"
proof -
  have h: "length (getPerformanceHistoryByDateRange
             (storageWith [historyPoint 1 50, historyPoint 2 90]) ''t1''
             (startDate (calculateDateRange plainCalendar (now \<lparr>now = 1000, uuid = ''u1''\<rparr>) P30d))
             (endDate (calculateDateRange plainCalendar (now \<lparr>now = 1000, uuid = ''u1''\<rparr>) P30d)))
     < minimumDataPoints (TREND_PARAMS P30d)"
    by (simp add: getPerformanceHistoryByDateRange_def storageWith_def calculateDateRange_def
        plainCalendar_def historyPoint_def)
  show ?thesis
    using h insufficient_data_analysis [OF h, of quietHeuristics] by blast
qed

subsection \<open>A ten-point improving history\<close>

lemma calculateAverageScores_overall:
  "history \<noteq> [] \<Longrightarrow>
   avg_overall (calculateAverageScores history)
     = sum_list (map overallScore history) / of_nat (length history)"
  by (simp add: calculateAverageScores_def)

lemma sorted_history_unchanged:
  "sorted (map recordedAt history) \<Longrightarrow> sortByRecordedAt history = history"
  by (simp add: sortByRecordedAt_def sort_key_id_if_sorted)

lemma improvementOf_overall_major:
  "improvementOf 8 \<lparr>m_name = ''Overall'', m_recent = Some 80, m_baseline = Some 50\<rparr>
     = Some \<lparr>sc_category = Overall, sc_type = Improvement, sc_magnitude = Major,
             scoreChange = 30, percentageChange = 60,
             sc_impact = ''Positive change in Overall performance indicates successful optimization efforts'',
             possibleCauses = [''Comprehensive optimization efforts'',
               ''Multiple metric improvements'', ''Strategic performance initiatives'']\<rparr>"
  by (simp add: improvementOf_def metricNameToCategory_def classifyMagnitude_def Math_round_def
      generatePossibleCauses_def possibleCausesTable_def)

text \<open>
  C4. For a history of exactly ten records in time order whose first five overall scores
  average 50 and whose last five average 80, \<open>detectOverallTrend\<close> answers improving,
  and \<open>identifyImprovements\<close> at the 30d threshold (8) lists the Overall metric as an
  improvement of magnitude major.
\<close>

theorem ten_point_history_improving:
  assumes len: "length history = 10"
    and ordered: "sorted (map recordedAt history)"
    and first: "sum_list (map overallScore (take 5 history)) / 5 = 50"
    and last: "sum_list (map overallScore (drop 5 history)) / 5 = 80"
  shows "detectOverallTrend history = Improving
       \<and> (\<exists>c \<in> set (identifyImprovements history (significanceThreshold (TREND_PARAMS P30d))).
            sc_category c = Overall \<and> sc_type c = Improvement \<and> sc_magnitude c = Major
            \<and> scoreChange c = 30)"
proof -
  have srt: "sortByRecordedAt history = history"
    using ordered by (rule sorted_history_unchanged)
  have recentHalf: "sliceFrom history 5 = drop 5 history"
    and recent5: "sliceFrom history (- 5) = drop 5 history"
    and earlier: "slice history 0 5 = take 5 history"
    using len by (simp_all add: sliceFrom_def slice_def sliceIndex_def)
  have ne: "take 5 history \<noteq> []" "drop 5 history \<noteq> []"
    using len by auto
  have avg_first: "avg_overall (calculateAverageScores (take 5 history)) = 50"
    using first len by (simp add: calculateAverageScores_overall [OF ne(1)])
  have avg_last: "avg_overall (calculateAverageScores (drop 5 history)) = 80"
    using last len by (simp add: calculateAverageScores_overall [OF ne(2)])
  have trend: "detectOverallTrend history = Improving"
    unfolding detectOverallTrend_def Let_def srt
    by (simp add: len recentHalf earlier avg_first avg_last)
  have "identifyImprovements history 8
      = List.map_filter (improvementOf 8)
          (metricsOf (calculateAverageScores (drop 5 history))
                     (calculateAverageScores (take 5 history)))"
    unfolding identifyImprovements_def Let_def srt
    by (simp add: len recent5 earlier)
  then have "\<exists>rest. identifyImprovements history 8
      = \<lparr>sc_category = Overall, sc_type = Improvement, sc_magnitude = Major,
             scoreChange = 30, percentageChange = 60,
             sc_impact = ''Positive change in Overall performance indicates successful optimization efforts'',
             possibleCauses = [''Comprehensive optimization efforts'',
               ''Multiple metric improvements'', ''Strategic performance initiatives'']\<rparr> # rest"
    by (simp add: metricsOf_def avg_first avg_last List.map_filter_simps
        improvementOf_overall_major)
  then have "\<exists>c \<in> set (identifyImprovements history 8).
            sc_category c = Overall \<and> sc_type c = Improvement \<and> sc_magnitude c = Major
            \<and> scoreChange c = 30"
    by auto
  with trend show ?thesis by simp
qed

theorem ten_point_history_improving_witness:
  "length [historyPoint 1 40, historyPoint 2 45, historyPoint 3 50, historyPoint 4 55,
           historyPoint 5 60, historyPoint 6 70, historyPoint 7 75, historyPoint 8 80,
           historyPoint 9 85, historyPoint 10 90] = 10
   \<and> detectOverallTrend
        [historyPoint 1 40, historyPoint 2 45, historyPoint 3 50, historyPoint 4 55,
         historyPoint 5 60, historyPoint 6 70, historyPoint 7 75, historyPoint 8 80,
         historyPoint 9 85, historyPoint 10 90] = Improving
   \<and> (\<exists>c \<in> set (identifyImprovements
        [historyPoint 1 40, historyPoint 2 45, historyPoint 3 50, historyPoint 4 55,
         historyPoint 5 60, historyPoint 6 70, historyPoint 7 75, historyPoint 8 80,
         historyPoint 9 85, historyPoint 10 90] 8).
          sc_category c = Overall \<and> sc_magnitude c = Major)"
proof -
  let ?h = "[historyPoint 1 40, historyPoint 2 45, historyPoint 3 50, historyPoint 4 55,
           historyPoint 5 60, historyPoint 6 70, historyPoint 7 75, historyPoint 8 80,
           historyPoint 9 85, historyPoint 10 90]"
  have a: "length ?h = 10" by simp
  have b: "sorted (map recordedAt ?h)" by (simp add: historyPoint_def)
  have c: "sum_list (map overallScore (take 5 ?h)) / 5 = 50" by (simp add: historyPoint_def)
  have d: "sum_list (map overallScore (drop 5 ?h)) / 5 = 80" by (simp add: historyPoint_def)
  show ?thesis
    using a ten_point_history_improving [OF a b c d] by auto
qed

section \<open>Properties of the URL Safety Gate\<close>

subsection \<open>Decimal and hexadecimal text\<close>

lemma interval16: "{0..<16::nat} = {0, 1, 2, 3, 4, 5, 6, 7, 8, 9, 10, 11, 12, 13, 14, 15}"
  by (simp add: atLeastLessThan_nat_numeral) blast

lemma below16_cases:
  "d < 16 \<Longrightarrow> d \<in> {0, 1, 2, 3, 4, 5, 6, 7, 8, 9, 10, 11, 12, 13, 14, 15::nat}"
  unfolding interval16 [symmetric] by simp

lemma interval10: "{0..<10::nat} = {0, 1, 2, 3, 4, 5, 6, 7, 8, 9}"
  by (simp add: atLeastLessThan_nat_numeral) blast

lemma below10_cases: "d < 10 \<Longrightarrow> d \<in> {0, 1, 2, 3, 4, 5, 6, 7, 8, 9::nat}"
  unfolding interval10 [symmetric] by simp

lemma digitValue_digitChar: "d < 10 \<Longrightarrow> digitValue (digitChar d) = Some d"
  by (drule below10_cases, elim insertE emptyE) (simp_all add: digitChar_def digitValue_def)

lemma digitChar_plain:
  assumes "d < 16"
  shows "digitChar d \<noteq> CHR '':''" and "digitChar d \<noteq> CHR ''.''"
    and "\<not> isWhiteSpace (digitChar d)" and "toLowerChar (digitChar d) = digitChar d"
  using below16_cases [OF assms]
  by (elim insertE emptyE; simp add: digitChar_def isWhiteSpace_def toLowerChar_def)+

lemma digitChar_eq_iff:
  assumes "d < 16"
  shows "digitChar d = CHR ''f'' \<longleftrightarrow> d = 15" and "digitChar d = CHR ''e'' \<longleftrightarrow> d = 14"
    and "digitChar d = CHR ''d'' \<longleftrightarrow> d = 13" and "digitChar d = CHR ''c'' \<longleftrightarrow> d = 12"
    and "digitChar d = CHR ''8'' \<longleftrightarrow> d = 8" and "digitChar d = CHR ''0'' \<longleftrightarrow> d = 0"
  using below16_cases [OF assms]
  by (elim insertE emptyE; simp add: digitChar_def)+

lemma decimal_no_separator: "CHR ''.'' \<notin> set (decimal n) \<and> CHR '':'' \<notin> set (decimal n)"
proof (induction n rule: decimal.induct)
  case (1 n)
  have "n mod 10 < 10" by simp
  then have last: "n mod 10 < 16" by simp
  show ?case
  proof (cases "n < 10")
    case True
    then have "n < 16" by simp
    with True show ?thesis
      using digitChar_plain(1,2) [of n] by (simp add: decimal.simps [of n])
  next
    case False
    with "1.IH" show ?thesis
      using digitChar_plain(1,2) [OF last] by (simp add: decimal.simps [of n])
  qed
qed

lemma decimalValue_snoc:
  "decimalValue acc (xs @ [c]) =
     (case decimalValue acc xs of
        None \<Rightarrow> None
      | Some v \<Rightarrow> (case digitValue c of None \<Rightarrow> None | Some d \<Rightarrow> Some (10 * v + d)))"
  by (induction xs arbitrary: acc) (auto split: option.splits)

lemma Number_decimal: "Number (decimal n) = Some n"
  unfolding Number_def
proof (induction n rule: decimal.induct)
  case (1 n)
  show ?case
  proof (cases "n < 10")
    case True
    then show ?thesis
      by (simp add: decimal.simps [of n] digitValue_digitChar)
  next
    case False
    with "1.IH" show ?thesis
      by (simp add: decimal.simps [of n] decimalValue_snoc digitValue_digitChar)
  qed
qed

lemma splitOn_no_separator: "sep \<notin> set xs \<Longrightarrow> splitOn sep xs = [xs]"
  by (induction xs) auto

lemma splitOn_first: "sep \<notin> set xs \<Longrightarrow> splitOn sep (xs @ sep # ys) = xs # splitOn sep ys"
  by (induction xs) auto

lemma splitOn_dottedQuad:
  "splitOn CHR ''.'' (dottedQuad a b c d) = [decimal a, decimal b, decimal c, decimal d]"
  by (simp add: dottedQuad_def splitOn_first splitOn_no_separator decimal_no_separator)

lemma dottedQuad_no_colon: "CHR '':'' \<notin> set (dottedQuad a b c d)"
  by (simp add: dottedQuad_def decimal_no_separator)

lemma isPrivateIP_dottedQuad:
  "isPrivateIP (dottedQuad a b c d) \<longleftrightarrow>
     a = 127 \<or> a = 10 \<or> (a = 172 \<and> 16 \<le> b \<and> b \<le> 31) \<or> (a = 192 \<and> b = 168)
     \<or> (a = 169 \<and> b = 254) \<or> a = 0 \<or> (224 \<le> a \<and> a \<le> 239)"
  by (auto simp: isPrivateIP_def dottedQuad_no_colon isPrivateIPv4_def splitOn_dottedQuad
      Number_decimal numEq_def numGe_def numLe_def)

lemma ipv4Value_div:
  assumes "b < 256" "c < 256" "d < 256"
  shows "ipv4Value a b c d div 16777216 = a"
    and "ipv4Value a b c d div 65536 = a * 256 + b"
    and "ipv4Value a b c d div 1048576 = a * 16 + b div 16"
    and "ipv4Value a b c d div 268435456 = a div 16"
  using assms unfolding ipv4Value_def by simp_all

lemma quotient_remainder_unique:
  fixes a a' r r' n :: nat
  assumes "r < n" "r' < n"
  shows "a * n + r = a' * n + r' \<longleftrightarrow> a = a' \<and> r = r'"
proof
  assume eq: "a * n + r = a' * n + r'"
  have "(a * n + r) div n = a" "(a' * n + r') div n = a'"
    "(a * n + r) mod n = r" "(a' * n + r') mod n = r'"
    using assms by simp_all
  with eq show "a = a' \<and> r = r'" by metis
qed simp

lemma div_eq_iff_between:
  fixes m q k :: nat
  assumes "0 < q"
  shows "m div q = k \<longleftrightarrow> k * q \<le> m \<and> m < Suc k * q"
proof -
  have "m div q = k \<longleftrightarrow> k \<le> m div q \<and> m div q < Suc k" by auto
  also have "\<dots> \<longleftrightarrow> k * q \<le> m \<and> m < Suc k * q"
    using assms by (simp only: less_eq_div_iff_mult_less_eq div_less_iff_less_mult)
  finally show ?thesis .
qed

lemma octet_pair_eq:
  assumes "b < (256::nat)"
  shows "a * 16 + b div 16 = 2753 \<longleftrightarrow> a = 172 \<and> 16 \<le> b \<and> b \<le> 31"
    and "a * 256 + b = 49320 \<longleftrightarrow> a = 192 \<and> b = 168"
    and "a * 256 + b = 43518 \<longleftrightarrow> a = 169 \<and> b = 254"
    and "a div 16 = 14 \<longleftrightarrow> 224 \<le> a \<and> a \<le> 239"
proof -
  from assms have "b div 16 < 16"
    by (simp add: div_less_iff_less_mult)
  then have "a * 16 + b div 16 = 2753 \<longleftrightarrow> a = 172 \<and> b div 16 = 1"
    using quotient_remainder_unique [of "b div 16" 16 1 a 172] by simp
  also have "b div 16 = 1 \<longleftrightarrow> 16 \<le> b \<and> b \<le> 31"
    using div_eq_iff_between [of 16 b 1] by auto
  finally show "a * 16 + b div 16 = 2753 \<longleftrightarrow> a = 172 \<and> 16 \<le> b \<and> b \<le> 31" .
  show "a * 256 + b = 49320 \<longleftrightarrow> a = 192 \<and> b = 168"
    using assms quotient_remainder_unique [of b 256 168 a 192] by simp
  show "a * 256 + b = 43518 \<longleftrightarrow> a = 169 \<and> b = 254"
    using assms quotient_remainder_unique [of b 256 254 a 169] by simp
  show "a div 16 = 14 \<longleftrightarrow> 224 \<le> a \<and> a \<le> 239"
    using div_eq_iff_between [of 16 a 14] by auto
qed

lemma ipv4Value_networks:
  "ipv4Value 127 0 0 0 div 16777216 = 127" "ipv4Value 10 0 0 0 div 16777216 = 10"
  "ipv4Value 172 16 0 0 div 1048576 = 2753" "ipv4Value 192 168 0 0 div 65536 = 49320"
  "ipv4Value 169 254 0 0 div 65536 = 43518" "ipv4Value 0 0 0 0 div 16777216 = 0"
  "ipv4Value 224 0 0 0 div 268435456 = 14"
  by (simp_all add: ipv4Value_def)

lemma documentedPrivateIPv4_octets:
  assumes "a < 256" "b < 256" "c < 256" "d < 256"
  shows "documentedPrivateIPv4 a b c d \<longleftrightarrow>
     a = 127 \<or> a = 10 \<or> (a = 172 \<and> 16 \<le> b \<and> b \<le> 31) \<or> (a = 192 \<and> b = 168)
     \<or> (a = 169 \<and> b = 254) \<or> a = 0 \<or> (224 \<le> a \<and> a \<le> 239)"
  unfolding documentedPrivateIPv4_def Let_def inRange_def
  by (simp add: ipv4Value_networks ipv4Value_div [OF assms(2,3,4)] octet_pair_eq [OF assms(2)])

subsection \<open>The first group of an IPv6 address\<close>

lemma dropWhile_keeps_marker:
  "\<not> P y \<Longrightarrow> \<exists>zs. dropWhile P (xs @ y # ys) = zs @ y # ys"
proof (induction xs)
  case Nil
  then show ?case by simp
next
  case (Cons x xs)
  then obtain zs where "dropWhile P (xs @ y # ys) = zs @ y # ys" by blast
  then show ?case
    by (cases "P x") (auto intro: exI [of _ "x # xs"])
qed

lemma trim_group:
  assumes "g \<noteq> []" and "\<not> isWhiteSpace (hd g)"
  shows "\<exists>r'. trim (g @ CHR '':'' # r) = g @ CHR '':'' # r'"
proof -
  from assms obtain c cs where g: "g = c # cs" and c: "\<not> isWhiteSpace c"
    by (cases g) auto
  have front: "dropWhile isWhiteSpace (g @ CHR '':'' # r) = g @ CHR '':'' # r"
    using c by (simp add: g)
  have colon: "\<not> isWhiteSpace CHR '':''"
    by (simp add: isWhiteSpace_def)
  obtain zs where "dropWhile isWhiteSpace (rev r @ CHR '':'' # rev g) = zs @ CHR '':'' # rev g"
    using dropWhile_keeps_marker [of isWhiteSpace "CHR '':''" "rev r" "rev g"] colon by blast
  then have "trim (g @ CHR '':'' # r) = g @ CHR '':'' # rev zs"
    by (simp add: trim_def front)
  then show ?thesis by blast
qed

lemma hex4_props:
  assumes "h < 65536"
  shows "length (hex4 h) = 4" and "CHR '':'' \<notin> set (hex4 h)"
    and "\<not> isWhiteSpace (hd (hex4 h))" and "toLowerCase (hex4 h) = hex4 h"
proof -
  have d: "h div 4096 < 16" "h div 256 mod 16 < 16" "h div 16 mod 16 < 16" "h mod 16 < 16"
    using assms by (simp_all add: div_less_iff_less_mult)
  show "length (hex4 h) = 4" by (simp add: hex4_def)
  show "CHR '':'' \<notin> set (hex4 h)"
    using digitChar_plain(1) [OF d(1)] digitChar_plain(1) [OF d(2)]
      digitChar_plain(1) [OF d(3)] digitChar_plain(1) [OF d(4)]
    by (simp add: hex4_def)
  show "\<not> isWhiteSpace (hd (hex4 h))"
    using digitChar_plain(3) [OF d(1)] by (simp add: hex4_def)
  show "toLowerCase (hex4 h) = hex4 h"
    using digitChar_plain(4) [OF d(1)] digitChar_plain(4) [OF d(2)]
      digitChar_plain(4) [OF d(3)] digitChar_plain(4) [OF d(4)]
    by (simp add: hex4_def toLowerCase_def)
qed

lemma isPrivateIPv6_first_group:
  assumes len: "length g = 4" and nocolon: "CHR '':'' \<notin> set g"
    and nows: "\<not> isWhiteSpace (hd g)" and lower: "toLowerCase g = g"
  shows "isPrivateIP (g @ CHR '':'' # rest) \<longleftrightarrow>
     g = ''fe80'' \<or> startsWith g ''fc'' \<or> startsWith g ''fd'' \<or> startsWith g ''ff''"
proof -
  from len have ne: "g \<noteq> []" by auto
  have low: "toLowerCase (g @ CHR '':'' # rest) = g @ CHR '':'' # toLowerCase rest"
    using lower by (simp add: toLowerCase_def toLowerChar_def)
  obtain r' where norm: "trim (toLowerCase (g @ CHR '':'' # rest)) = g @ CHR '':'' # r'"
    unfolding low using trim_group [OF ne nows] by blast
  from ne nocolon obtain c cs where g: "g = c # cs" and c: "c \<noteq> CHR '':''"
    by (cases g) auto
  have notloop: "g @ CHR '':'' # r' \<noteq> ''::1''" "g @ CHR '':'' # r' \<noteq> ''::''"
    using c by (simp_all add: g)
  have parts: "filter (\<lambda>p. length p > 0) (splitOn CHR '':'' (g @ CHR '':'' # r'))
      = g # filter (\<lambda>p. length p > 0) (splitOn CHR '':'' r')"
    using ne by (simp add: splitOn_first [OF nocolon])
  have prefix: "startsWith (g @ CHR '':'' # r') ''fe80:'' \<longleftrightarrow> g = ''fe80''"
    using len by (auto simp: startsWith_def)
  have "isPrivateIP (g @ CHR '':'' # rest) = isPrivateIPv6 (g @ CHR '':'' # rest)"
    by (simp add: isPrivateIP_def)
  also have "\<dots> \<longleftrightarrow> g = ''fe80'' \<or> startsWith g ''fc'' \<or> startsWith g ''fd'' \<or> startsWith g ''ff''"
    unfolding isPrivateIPv6_def norm Let_def parts
    using notloop prefix by auto
  finally show ?thesis .
qed

lemma nibble_split:
  fixes q a b :: nat
  assumes "b < 16"
  shows "q div 16 = a \<and> q mod 16 = b \<longleftrightarrow> q = a * 16 + b"
proof
  assume "q div 16 = a \<and> q mod 16 = b"
  then show "q = a * 16 + b"
    using div_mult_mod_eq [of q 16] by simp
next
  assume "q = a * 16 + b"
  with assms show "q div 16 = a \<and> q mod 16 = b" by simp
qed

lemma hex4_digits:
  fixes h :: nat
  assumes "h < 65536"
  shows "h div 4096 < 16" "h div 256 mod 16 < 16" "h div 16 mod 16 < 16" "h mod 16 < 16"
  using assms by (simp_all add: div_less_iff_less_mult)

lemma hex4_prefix:
  fixes h b :: nat
  assumes "h < 65536" and "b < 16"
  shows "h div 4096 = 15 \<and> h div 256 mod 16 = b \<longleftrightarrow> h div 256 = 240 + b"
proof -
  have "h div 4096 = h div 256 div 16"
    by (simp add: div_mult2_eq)
  then show ?thesis
    using nibble_split [OF assms(2), of "h div 256" 15] by simp
qed

lemma hex4_startsWith:
  assumes "h < 65536"
  shows "startsWith (hex4 h) ''fc'' \<longleftrightarrow> h div 256 = 252"
    and "startsWith (hex4 h) ''fd'' \<longleftrightarrow> h div 256 = 253"
    and "startsWith (hex4 h) ''ff'' \<longleftrightarrow> h div 256 = 255"
  using hex4_prefix [OF assms, of 12] hex4_prefix [OF assms, of 13] hex4_prefix [OF assms, of 15]
    digitChar_eq_iff [OF hex4_digits(1) [OF assms]] digitChar_eq_iff [OF hex4_digits(2) [OF assms]]
  by (simp_all add: startsWith_def hex4_def)

lemma hex4_fe80:
  assumes "h < 65536"
  shows "hex4 h = ''fe80'' \<longleftrightarrow> h = 65152"
proof -
  have q: "h div 4096 = h div 256 div 16" "h div 256 = h div 16 div 16"
    by (simp_all add: div_mult2_eq)
  have "hex4 h = ''fe80'' \<longleftrightarrow>
      h div 4096 = 15 \<and> h div 256 mod 16 = 14 \<and> h div 16 mod 16 = 8 \<and> h mod 16 = 0"
    using digitChar_eq_iff [OF hex4_digits(1) [OF assms]]
      digitChar_eq_iff [OF hex4_digits(2) [OF assms]]
      digitChar_eq_iff [OF hex4_digits(3) [OF assms]]
      digitChar_eq_iff [OF hex4_digits(4) [OF assms]]
    by (simp add: hex4_def)
  also have "\<dots> \<longleftrightarrow> h div 256 = 254 \<and> h div 16 mod 16 = 8 \<and> h mod 16 = 0"
    using hex4_prefix [OF assms, of 14] by auto
  also have "\<dots> \<longleftrightarrow> h div 16 = 4072 \<and> h mod 16 = 0"
    using nibble_split [of 8 "h div 16" 254] by (auto simp: q(2))
  also have "\<dots> \<longleftrightarrow> h = 65152"
    using nibble_split [of 0 h 4072] by simp
  finally show ?thesis .
qed

lemma documentedPrefixIPv6_bounds:
  fixes h :: nat
  shows "documentedPrefixIPv6 h \<longleftrightarrow>
     (65152 \<le> h \<and> h < 65216) \<or> (64512 \<le> h \<and> h < 65024) \<or> (65280 \<le> h \<and> h < 65536)"
  unfolding documentedPrefixIPv6_def inRange_def
  using div_eq_iff_between [of 64 h 1018] div_eq_iff_between [of 512 h 126]
    div_eq_iff_between [of 256 h 255]
  by simp

lemma isPrivateIP_hex4:
  assumes "h < 65536"
  shows "isPrivateIP (hex4 h @ CHR '':'' # rest) \<longleftrightarrow>
     h = 65152 \<or> (64512 \<le> h \<and> h < 65024) \<or> 65280 \<le> h"
proof -
  have "isPrivateIP (hex4 h @ CHR '':'' # rest) \<longleftrightarrow>
      hex4 h = ''fe80'' \<or> startsWith (hex4 h) ''fc'' \<or> startsWith (hex4 h) ''fd''
      \<or> startsWith (hex4 h) ''ff''"
    using hex4_props [OF assms] by (rule isPrivateIPv6_first_group)
  also have "\<dots> \<longleftrightarrow> h = 65152 \<or> h div 256 = 252 \<or> h div 256 = 253 \<or> h div 256 = 255"
    by (simp only: hex4_fe80 [OF assms] hex4_startsWith [OF assms])
  also have "\<dots> \<longleftrightarrow> h = 65152 \<or> (64512 \<le> h \<and> h < 65024) \<or> 65280 \<le> h"
    using assms div_eq_iff_between [of 256 h 252] div_eq_iff_between [of 256 h 253]
      div_eq_iff_between [of 256 h 255]
    by auto
  finally show ?thesis .
qed

subsection \<open>validateUrlSafety on a resolved address\<close>

lemma gate_message_is_rejection:
  "isGateRejection ''Cannot audit private or internal IP addresses''"
  by (simp add: isGateRejection_def startsWith_def)

lemma validateUrlSafety_resolved:
  assumes "protocol u \<in> set [''http:'', ''https:'']"
    and "toLowerCase (hostname u) \<notin> set [''localhost'', ''127.0.0.1'', ''::1'']"
    and "\<not> privateHostnamePattern (toLowerCase (hostname u))"
    and "dnsLookup (hostname u) = Address address"
  shows "validateUrlSafety dnsLookup u =
     (if isPrivateIP address then Inl ''Cannot audit private or internal IP addresses''
      else Inr ())"
  using assms gate_message_is_rejection
  by (simp add: validateUrlSafety_def resolveAndCheck_def Let_def)

lemma validateUrlSafety_private:
  assumes "dnsLookup (hostname u) = Address address" and "isPrivateIP address"
  shows "\<exists>message. validateUrlSafety dnsLookup u = Inl message"
  using assms gate_message_is_rejection
  by (simp add: validateUrlSafety_def resolveAndCheck_def Let_def)

subsection \<open>The classifier and the documented ranges\<close>

text \<open>
  C1, as stated, fails: the unspecified IPv6 address \<open>::\<close>, all eight groups 0, lies in
  none of the documented ranges, yet \<open>isPrivateIP\<close> blocks it by an explicit test, and
  \<open>validateUrlSafety\<close> rejects a URL that resolves to it.
\<close>

theorem unspecified_address_rejected:
  "isPrivateIP ''::''
   \<and> \<not> documentedPrivateIPv6 [0, 0, 0, 0, 0, 0, 0, 0]
   \<and> validateUrlSafety (\<lambda>h. Address ''::'') \<lparr>protocol = ''https:'', hostname = ''example.com''\<rparr>
       = Inl ''Cannot audit private or internal IP addresses''"
proof -
  have a: "isPrivateIP ''::''"
    by (simp add: isPrivateIP_def isPrivateIPv6_def toLowerCase_def toLowerChar_def trim_def
        isWhiteSpace_def)
  have b: "\<not> documentedPrivateIPv6 [0, 0, 0, 0, 0, 0, 0, 0]"
    by (simp add: documentedPrivateIPv6_def documentedPrefixIPv6_def inRange_def)
  have c: "validateUrlSafety (\<lambda>h. Address ''::'')
       \<lparr>protocol = ''https:'', hostname = ''example.com''\<rparr>
       = Inl ''Cannot audit private or internal IP addresses''"
    using a gate_message_is_rejection
    by (simp add: validateUrlSafety_def resolveAndCheck_def Let_def toLowerCase_def
        toLowerChar_def privateHostnamePattern_def startsWith_def)
  from a b c show ?thesis by blast
qed

text \<open>
  C1, amended. For an IPv4 address written as a dotted quad, \<open>isPrivateIP\<close> holds exactly
  on the documented ranges. For an IPv6 address whose text starts with its first group in
  four lower-case hexadecimal digits, \<open>isPrivateIP\<close> holds exactly when that group lies in
  \<open>fe80::/10\<close>, \<open>fc00::/7\<close> or \<open>ff00::/8\<close>, provided the group is not one of
  \<open>fe81\<close> to \<open>febf\<close>; \<open>::1\<close> and, beyond the documented ranges, \<open>::\<close> are blocked.
  A URL that passes the scheme and literal-hostname checks and resolves is rejected exactly
  when \<open>isPrivateIP\<close> holds of the address, and any URL resolving to such an address is
  rejected.
\<close>

theorem classifier_agrees_with_documented_ranges:
  "(a < 256 \<and> b < 256 \<and> c < 256 \<and> d < 256 \<longrightarrow>
      (isPrivateIP (dottedQuad a b c d) \<longleftrightarrow> documentedPrivateIPv4 a b c d))
   \<and> (h < 65536 \<and> \<not> (0xfe80 < h \<and> h \<le> 0xfebf) \<longrightarrow>
      (isPrivateIP (hex4 h @ '':'' @ rest) \<longleftrightarrow> documentedPrefixIPv6 h))
   \<and> isPrivateIP ''::1'' \<and> isPrivateIP ''::''
   \<and> (protocol u \<in> set [''http:'', ''https:'']
      \<and> toLowerCase (hostname u) \<notin> set [''localhost'', ''127.0.0.1'', ''::1'']
      \<and> \<not> privateHostnamePattern (toLowerCase (hostname u))
      \<and> dnsLookup (hostname u) = Address address \<longrightarrow>
      validateUrlSafety dnsLookup u =
        (if isPrivateIP address then Inl ''Cannot audit private or internal IP addresses''
         else Inr ()))
   \<and> (dnsLookup (hostname u) = Address address \<and> isPrivateIP address \<longrightarrow>
      (\<exists>message. validateUrlSafety dnsLookup u = Inl message))"
proof -
  have v4: "a < 256 \<and> b < 256 \<and> c < 256 \<and> d < 256 \<longrightarrow>
      (isPrivateIP (dottedQuad a b c d) \<longleftrightarrow> documentedPrivateIPv4 a b c d)"
    by (simp add: isPrivateIP_dottedQuad documentedPrivateIPv4_octets)
  have v6: "h < 65536 \<and> \<not> (0xfe80 < h \<and> h \<le> 0xfebf) \<longrightarrow>
      (isPrivateIP (hex4 h @ '':'' @ rest) \<longleftrightarrow> documentedPrefixIPv6 h)"
  proof
    assume hyp: "h < 65536 \<and> \<not> (0xfe80 < h \<and> h \<le> 0xfebf)"
    then have "isPrivateIP (hex4 h @ CHR '':'' # rest) \<longleftrightarrow>
        h = 65152 \<or> (64512 \<le> h \<and> h < 65024) \<or> 65280 \<le> h"
      by (simp add: isPrivateIP_hex4)
    also have "\<dots> \<longleftrightarrow> documentedPrefixIPv6 h"
      unfolding documentedPrefixIPv6_bounds using hyp by auto
    finally show "isPrivateIP (hex4 h @ '':'' @ rest) \<longleftrightarrow> documentedPrefixIPv6 h"
      by simp
  qed
  have loop: "isPrivateIP ''::1''" "isPrivateIP ''::''"
    by (simp_all add: isPrivateIP_def isPrivateIPv6_def toLowerCase_def toLowerChar_def trim_def
        isWhiteSpace_def)
  from v4 v6 loop show ?thesis
    using validateUrlSafety_resolved [of u dnsLookup address]
      validateUrlSafety_private [of dnsLookup u address]
    by blast
qed

theorem classifier_agrees_with_documented_ranges_witness:
  "isPrivateIP (dottedQuad 192 168 1 1)
   \<and> \<not> isPrivateIP (dottedQuad 8 8 8 8)
   \<and> isPrivateIP (hex4 0xfd12 @ '':'' @ ''3456::1'')
   \<and> \<not> isPrivateIP (hex4 0x2001 @ '':'' @ ''db8::1'')
   \<and> validateUrlSafety (\<lambda>h. Address (dottedQuad 8 8 8 8))
        \<lparr>protocol = ''https:'', hostname = ''example.com''\<rparr> = Inr ()
   \<and> (\<exists>message. validateUrlSafety (\<lambda>h. Address (dottedQuad 192 168 1 1))
        \<lparr>protocol = ''https:'', hostname = ''example.com''\<rparr> = Inl message)"
proof -
  let ?u = "\<lparr>protocol = ''https:'', hostname = ''example.com''\<rparr>"
  have d1: "documentedPrivateIPv4 192 168 1 1" "\<not> documentedPrivateIPv4 8 8 8 8"
    by (simp_all add: documentedPrivateIPv4_def ipv4Value_def inRange_def)
  have d2: "documentedPrefixIPv6 0xfd12" "\<not> documentedPrefixIPv6 0x2001"
    by (simp_all add: documentedPrefixIPv6_def inRange_def)
  have p1: "isPrivateIP (dottedQuad 192 168 1 1)"
    using d1(1) classifier_agrees_with_documented_ranges [of 192 168 1 1] by simp
  have p2: "\<not> isPrivateIP (dottedQuad 8 8 8 8)"
    using d1(2) classifier_agrees_with_documented_ranges [of 8 8 8 8] by simp
  have p3: "isPrivateIP (hex4 0xfd12 @ '':'' @ ''3456::1'')"
    using d2(1) classifier_agrees_with_documented_ranges [of _ _ _ _ "0xfd12" "''3456::1''"]
    by simp
  have p4: "\<not> isPrivateIP (hex4 0x2001 @ '':'' @ ''db8::1'')"
    using d2(2) classifier_agrees_with_documented_ranges [of _ _ _ _ "0x2001" "''db8::1''"]
    by simp
  have checks: "protocol ?u \<in> set [''http:'', ''https:'']"
    "toLowerCase (hostname ?u) \<notin> set [''localhost'', ''127.0.0.1'', ''::1'']"
    "\<not> privateHostnamePattern (toLowerCase (hostname ?u))"
    by (simp_all add: toLowerCase_def toLowerChar_def privateHostnamePattern_def startsWith_def)
  have p5: "validateUrlSafety (\<lambda>h. Address (dottedQuad 8 8 8 8)) ?u = Inr ()"
    using checks p2
      classifier_agrees_with_documented_ranges
        [of _ _ _ _ _ _ ?u "\<lambda>h. Address (dottedQuad 8 8 8 8)" "dottedQuad 8 8 8 8"]
    by simp
  have p6: "\<exists>message. validateUrlSafety (\<lambda>h. Address (dottedQuad 192 168 1 1)) ?u = Inl message"
    using p1
      classifier_agrees_with_documented_ranges
        [of _ _ _ _ _ _ ?u "\<lambda>h. Address (dottedQuad 192 168 1 1)" "dottedQuad 192 168 1 1"]
    by simp
  from p1 p2 p3 p4 p5 p6 show ?thesis by blast
qed

text \<open>
  The groups \<open>fe81\<close> to \<open>febf\<close> left out above are link-local addresses of
  \<open>fe80::/10\<close> that the classifier lets through: it compares the first group with
  \<open>fe80\<close> only.
\<close>

lemma link_local_above_fe80_not_blocked:
  "documentedPrefixIPv6 0xfebf \<and> \<not> isPrivateIP ''febf::1''"
  by (simp add: documentedPrefixIPv6_def inRange_def isPrivateIP_def isPrivateIPv6_def
      toLowerCase_def toLowerChar_def trim_def isWhiteSpace_def startsWith_def)

subsection \<open>Fail-open on a failed lookup\<close>

text \<open>
  C2. For a URL that passes the scheme and literal-hostname checks, when the lookup fails
  \<open>validateUrlSafety\<close> returns normally. A failed lookup is an error of the resolver,
  whose message (\<open>getaddrinfo CODE host\<close>) is not one of the Gate's own \<open>Cannot audit\<close>
  messages, by which the \<open>catch\<close> block tells the two apart. With such a resolver the Gate
  throws only for a scheme other than http and https, for a denylisted literal hostname,
  or for a resolved address that \<open>isPrivateIP\<close> classifies as private.
\<close>

theorem lookup_failure_allows_request:
  "(protocol u \<in> set [''http:'', ''https:'']
      \<and> toLowerCase (hostname u) \<notin> set [''localhost'', ''127.0.0.1'', ''::1'']
      \<and> \<not> privateHostnamePattern (toLowerCase (hostname u))
      \<and> dnsLookup (hostname u) = LookupError message
      \<and> \<not> isGateRejection message \<longrightarrow>
      validateUrlSafety dnsLookup u = Inr ())
   \<and> (validateUrlSafety dnsLookup u = Inl thrown
      \<and> (\<forall>m. dnsLookup (hostname u) = LookupError m \<longrightarrow> \<not> isGateRejection m) \<longrightarrow>
      protocol u \<notin> set [''http:'', ''https:'']
      \<or> toLowerCase (hostname u) \<in> set [''localhost'', ''127.0.0.1'', ''::1'']
      \<or> privateHostnamePattern (toLowerCase (hostname u))
      \<or> (\<exists>address. dnsLookup (hostname u) = Address address \<and> isPrivateIP address))"
proof (intro conjI impI)
  assume "protocol u \<in> set [''http:'', ''https:'']
      \<and> toLowerCase (hostname u) \<notin> set [''localhost'', ''127.0.0.1'', ''::1'']
      \<and> \<not> privateHostnamePattern (toLowerCase (hostname u))
      \<and> dnsLookup (hostname u) = LookupError message
      \<and> \<not> isGateRejection message"
  then show "validateUrlSafety dnsLookup u = Inr ()"
    by (simp add: validateUrlSafety_def resolveAndCheck_def Let_def)
next
  assume a: "validateUrlSafety dnsLookup u = Inl thrown
      \<and> (\<forall>m. dnsLookup (hostname u) = LookupError m \<longrightarrow> \<not> isGateRejection m)"
  show "protocol u \<notin> set [''http:'', ''https:'']
      \<or> toLowerCase (hostname u) \<in> set [''localhost'', ''127.0.0.1'', ''::1'']
      \<or> privateHostnamePattern (toLowerCase (hostname u))
      \<or> (\<exists>address. dnsLookup (hostname u) = Address address \<and> isPrivateIP address)"
  proof (cases "dnsLookup (hostname u)")
    case (Address address)
    with a show ?thesis
      by (auto simp: validateUrlSafety_def resolveAndCheck_def Let_def split: if_splits)
  next
    case (LookupError m)
    with a have "\<not> isGateRejection m" by blast
    with a LookupError show ?thesis
      by (auto simp: validateUrlSafety_def resolveAndCheck_def Let_def split: if_splits)
  qed
qed

theorem lookup_failure_allows_request_witness:
  "validateUrlSafety (\<lambda>h. LookupError ''getaddrinfo ENOTFOUND example.com'')
      \<lparr>protocol = ''https:'', hostname = ''example.com''\<rparr> = Inr ()
   \<and> validateUrlSafety (\<lambda>h. Address ''10.0.0.1'')
      \<lparr>protocol = ''https:'', hostname = ''example.com''\<rparr>
      = Inl ''Cannot audit private or internal IP addresses''
   \<and> (\<exists>address. (\<lambda>h. Address ''10.0.0.1'') (hostname \<lparr>protocol = ''https:'', hostname = ''example.com''\<rparr>)
         = Address address \<and> isPrivateIP address)"
proof -
  let ?u = "\<lparr>protocol = ''https:'', hostname = ''example.com''\<rparr>"
  have checks: "protocol ?u \<in> set [''http:'', ''https:'']"
    "toLowerCase (hostname ?u) \<notin> set [''localhost'', ''127.0.0.1'', ''::1'']"
    "\<not> privateHostnamePattern (toLowerCase (hostname ?u))"
    by (simp_all add: toLowerCase_def toLowerChar_def privateHostnamePattern_def startsWith_def)
  have msg: "\<not> isGateRejection ''getaddrinfo ENOTFOUND example.com''"
    by (simp add: isGateRejection_def startsWith_def)
  have open_: "validateUrlSafety (\<lambda>h. LookupError ''getaddrinfo ENOTFOUND example.com'') ?u = Inr ()"
    using checks msg
      lookup_failure_allows_request
        [of ?u "\<lambda>h. LookupError ''getaddrinfo ENOTFOUND example.com''"
            "''getaddrinfo ENOTFOUND example.com''"]
    by simp
  have priv: "isPrivateIP ''10.0.0.1''"
    by (simp add: isPrivateIP_def isPrivateIPv4_def Number_def digitValue_def numEq_def)
  have thrown: "validateUrlSafety (\<lambda>h. Address ''10.0.0.1'') ?u
      = Inl ''Cannot audit private or internal IP addresses''"
    using checks priv by (simp add: validateUrlSafety_resolved)
  have "\<exists>address. (\<lambda>h. Address ''10.0.0.1'') (hostname ?u) = Address address
      \<and> isPrivateIP address"
    using checks thrown
      lookup_failure_allows_request
        [of ?u "\<lambda>h. Address ''10.0.0.1''" _ "''Cannot audit private or internal IP addresses''"]
    by simp
  with open_ thrown show ?thesis by blast
qed

section \<open>Properties of the Link Integrity Checker\<close>

subsection \<open>The loop invariant\<close>

lemma recordedStatus_iff:
  "recordedStatus outcome = Some s \<longleftrightarrow>
     (outcome = Response s \<and> 400 \<le> s) \<or> outcome = ErrorWithResponse s"
  by (cases outcome) (auto simp: recordedStatus_def)

lemma recordedStatus_None_iff:
  "recordedStatus outcome = None \<longleftrightarrow>
     (\<exists>s. outcome = Response s \<and> s < 400) \<or> outcome = ErrorWithoutResponse"
  by (cases outcome) (auto simp: recordedStatus_def)

lemma linkInvariant_initial: "linkInvariant w initialLinkState"
  by (simp add: linkInvariant_def initialLinkState_def)

lemma checkLink_invariant:
  assumes inv: "linkInvariant w st" and room: "checkedCount st < maxLinksToCheck"
  shows "linkInvariant w (checkLink w baseUrl link st)"
proof (cases "href link = [] \<or> startsWith (href link) ''#'' \<or> startsWith (href link) ''mailto:''
    \<or> startsWith (href link) ''tel:''")
  case True
  with inv show ?thesis by (simp add: checkLink_def)
next
  case eligible: False
  show ?thesis
  proof (cases "resolveTarget w baseUrl (href link)")
    case None
    with inv eligible show ?thesis by (simp add: checkLink_def)
  next
    case (Some target)
    obtain absoluteUrl isInternal where target: "target = (absoluteUrl, isInternal)"
      by (cases target)
    show ?thesis
    proof (cases "absoluteUrl \<in> checkedUrls st")
      case True
      with inv eligible Some target show ?thesis by (simp add: checkLink_def)
    next
      case fresh: False
      with inv have unprobed: "absoluteUrl \<notin> set (probed st)"
        by (auto simp: linkInvariant_def)
      with inv have unbroken: "absoluteUrl \<notin> bl_url ` set (brokenLinks st)"
        by (auto simp: linkInvariant_def)
      show ?thesis
      proof (cases "\<not> isInternal \<and> isl (validateUrlString w absoluteUrl)")
        case True
        with eligible Some target fresh
        have "checkLink w baseUrl link st
            = st\<lparr>checkedUrls := insert absoluteUrl (checkedUrls st),
                  checkedCount := checkedCount st + 1\<rparr>"
          by (simp add: checkLink_def Let_def)
        with inv room show ?thesis
          by (auto simp: linkInvariant_def)
      next
        case allowed: False
        show ?thesis
        proof (cases "recordedStatus (probe w absoluteUrl)")
          case None
          with eligible Some target fresh allowed
          have "checkLink w baseUrl link st
              = st\<lparr>checkedUrls := insert absoluteUrl (checkedUrls st),
                    checkedCount := checkedCount st + 1,
                    probed := probed st @ [absoluteUrl]\<rparr>"
            by (simp add: checkLink_def Let_def)
          with inv room unprobed None show ?thesis
            by (auto simp: linkInvariant_def)
        next
          case (Some s)
          with eligible \<open>resolveTarget w baseUrl (href link) = Some target\<close> target fresh allowed
          have "checkLink w baseUrl link st
              = st\<lparr>checkedUrls := insert absoluteUrl (checkedUrls st),
                    checkedCount := checkedCount st + 1,
                    probed := probed st @ [absoluteUrl],
                    brokenLinks := brokenLinks st @
                      [\<lparr>bl_url = absoluteUrl, bl_status = s,
                        bl_foundIn = findLinkContext link,
                        bl_type = (if isInternal then Internal else External)\<rparr>]\<rparr>"
            by (simp add: checkLink_def Let_def)
          with inv room unprobed unbroken Some show ?thesis
            by (auto simp: linkInvariant_def)
        qed
      qed
    qed
  qed
qed

lemma checkLinksLoop_invariant:
  "linkInvariant w st \<Longrightarrow> linkInvariant w (checkLinksLoop w baseUrl links st)"
  by (induction links arbitrary: st) (simp_all add: checkLink_invariant)

lemma checkLinksRun_invariant: "linkInvariant w (checkLinksRun w baseUrl links)"
  by (simp add: checkLinksRun_def checkLinksLoop_invariant linkInvariant_initial)

subsection \<open>Only admitted URLs are probed\<close>

lemma checkLink_probed:
  assumes "u \<in> set (probed (checkLink w baseUrl link st))"
  shows "u \<in> set (probed st) \<or> admitted w baseUrl [link] u"
  using assms unfolding checkLink_def Let_def admitted_def
  by (auto split: if_splits option.splits)

lemma admitted_Cons:
  "admitted w baseUrl [link] u \<or> admitted w baseUrl links u
     \<Longrightarrow> admitted w baseUrl (link # links) u"
  by (auto simp: admitted_def)

lemma checkLinksLoop_probed:
  "u \<in> set (probed (checkLinksLoop w baseUrl links st))
     \<Longrightarrow> u \<in> set (probed st) \<or> admitted w baseUrl links u"
proof (induction links arbitrary: st)
  case Nil
  then show ?case by simp
next
  case (Cons link links)
  show ?case
  proof (cases "checkedCount st < maxLinksToCheck")
    case True
    with Cons.prems have "u \<in> set (probed (checkLinksLoop w baseUrl links (checkLink w baseUrl link st)))"
      by simp
    then have "u \<in> set (probed (checkLink w baseUrl link st)) \<or> admitted w baseUrl links u"
      by (rule Cons.IH)
    then show ?thesis
      using checkLink_probed [of u w baseUrl link st] admitted_Cons [of w baseUrl link u links]
      by blast
  next
    case False
    with Cons.prems show ?thesis by simp
  qed
qed

lemma checkLinksRun_probed:
  "u \<in> set (probed (checkLinksRun w baseUrl links)) \<Longrightarrow> admitted w baseUrl links u"
  using checkLinksLoop_probed [of u w baseUrl links initialLinkState]
  by (simp add: checkLinksRun_def initialLinkState_def)

subsection \<open>The probes do not depend on their outcomes\<close>

lemma checkLink_sameProgress:
  assumes "sameProgress s t"
  shows "sameProgress (checkLink (w\<lparr>httpHead := h, httpGet := g\<rparr>) baseUrl link s)
                      (checkLink w baseUrl link t)"
proof -
  have same: "resolveTarget (w\<lparr>httpHead := h, httpGet := g\<rparr>) baseUrl (href link)
                = resolveTarget w baseUrl (href link)"
    "\<And>u. validateUrlString (w\<lparr>httpHead := h, httpGet := g\<rparr>) u = validateUrlString w u"
    by (simp_all add: resolveTarget_def validateUrlString_def split: option.splits)
  show ?thesis
    using assms unfolding checkLink_def same Let_def sameProgress_def
    by (auto split: option.splits)
qed

lemma checkLinksLoop_sameProgress:
  "sameProgress s t \<Longrightarrow>
   sameProgress (checkLinksLoop (w\<lparr>httpHead := h, httpGet := g\<rparr>) baseUrl links s)
                (checkLinksLoop w baseUrl links t)"
proof (induction links arbitrary: s t)
  case Nil
  then show ?case by simp
next
  case (Cons link links)
  from Cons.prems have "checkedCount s = checkedCount t"
    by (simp add: sameProgress_def)
  with Cons show ?case
    by (simp add: checkLink_sameProgress)
qed

lemma probed_independent_of_outcomes:
  "probed (checkLinksRun (w\<lparr>httpHead := h, httpGet := g\<rparr>) baseUrl links)
     = probed (checkLinksRun w baseUrl links)"
  using checkLinksLoop_sameProgress
    [where s = initialLinkState and t = initialLinkState and h = h and g = g and w = w
       and baseUrl = baseUrl and links = links]
  by (simp add: checkLinksRun_def sameProgress_def)

lemma example_run:
  "checkLinksRun exampleWeb ''http://site.test''
     (map plainAnchor [''/gone'', ''#top'', ''/ok'', ''/gone'', ''/down'', ''/post-only''])
   = \<lparr>brokenLinks = [\<lparr>bl_url = ''http://site.test/gone'', bl_status = 404,
                       bl_foundIn = ''page content'', bl_type = Internal\<rparr>],
      checkedUrls = {''http://site.test/post-only'', ''http://site.test/down'',
                     ''http://site.test/ok'', ''http://site.test/gone''},
      checkedCount = 4,
      probed = [''http://site.test/gone'', ''http://site.test/ok'', ''http://site.test/down'',
                ''http://site.test/post-only'']\<rparr>"
  by (simp add: checkLinksRun_def initialLinkState_def maxLinksToCheck_def
      checkLink_def plainAnchor_def startsWith_def resolveTarget_def exampleWeb_def probe_def
      recordedStatus_def findLinkContext_def Let_def)

subsection \<open>The cap and the deduplication\<close>

text \<open>
  C6. Whatever the page holds, \<open>checkLinks\<close> hands at most 50 URLs to \<open>axios.head\<close>,
  and no absolute URL twice: two anchors that resolve to the same absolute URL are probed
  once.
\<close>

theorem at_most_fifty_links_probed_once:
  "length (probed (checkLinksRun w baseUrl links)) \<le> 50
   \<and> distinct (probed (checkLinksRun w baseUrl links))
   \<and> checkedCount (checkLinksRun w baseUrl links) \<le> 50"
  using checkLinksRun_invariant [of w baseUrl links]
  by (simp add: linkInvariant_def maxLinksToCheck_def)

theorem at_most_fifty_links_probed_once_witness:
  "probed (checkLinksRun exampleWeb ''http://site.test''
     (map plainAnchor [''/gone'', ''#top'', ''/ok'', ''/gone'', ''/down'', ''/post-only'']))
     = [''http://site.test/gone'', ''http://site.test/ok'', ''http://site.test/down'',
        ''http://site.test/post-only'']
   \<and> length (probed (checkLinksRun exampleWeb ''http://site.test''
     (map plainAnchor [''/gone'', ''#top'', ''/ok'', ''/gone'', ''/down'', ''/post-only'']))) \<le> 50
   \<and> distinct (probed (checkLinksRun exampleWeb ''http://site.test''
     (map plainAnchor [''/gone'', ''#top'', ''/ok'', ''/gone'', ''/down'', ''/post-only''])))"
  using at_most_fifty_links_probed_once [of exampleWeb "''http://site.test''"
      "map plainAnchor [''/gone'', ''#top'', ''/ok'', ''/gone'', ''/down'', ''/post-only'']"]
    example_run
  by simp

subsection \<open>Which links are reported broken\<close>

text \<open>
  C7, as stated, fails: an axios error that carries a response is recorded whatever its
  status. A server answering HEAD with 304 makes axios reject with that response, and the
  link is reported broken with status 304, below 400.
\<close>

theorem error_carried_status_below_400_recorded:
  "probe exampleWeb ''http://site.test/cached'' = ErrorWithResponse 304
   \<and> \<not> (400 \<le> (304 :: nat))
   \<and> checkLinks exampleWeb ''http://site.test'' [plainAnchor ''/cached'']
       = [\<lparr>bl_url = ''http://site.test/cached'', bl_status = 304,
           bl_foundIn = ''page content'', bl_type = Internal\<rparr>]"
  by (simp add: checkLinks_def checkLinksRun_def initialLinkState_def maxLinksToCheck_def
      checkLink_def plainAnchor_def startsWith_def resolveTarget_def exampleWeb_def probe_def
      recordedStatus_def findLinkContext_def Let_def)

text \<open>
  C7, amended. A probed link is reported broken exactly when its probe (HEAD, or GET after
  a 405 or 501 to HEAD) ends in a response of status at least 400 or in an error that
  carries a response, of any status; the entry has that status, and no URL is reported
  twice. A probe that fails without a response leaves no entry. Only a URL that is
  internal or that the Gate accepts is probed. Which links are probed does not depend on
  how any probe ends: no failure stops the loop, and \<open>checkLinks\<close> returns its list.
\<close>

theorem broken_link_iff_status_obtained:
  "(\<forall>u \<in> set (probed (checkLinksRun w baseUrl links)).
      u \<in> bl_url ` set (checkLinks w baseUrl links) \<longleftrightarrow>
        (\<exists>s. probe w u = Response s \<and> 400 \<le> s) \<or> (\<exists>s. probe w u = ErrorWithResponse s))
   \<and> (\<forall>b \<in> set (checkLinks w baseUrl links).
      bl_url b \<in> set (probed (checkLinksRun w baseUrl links))
      \<and> ((probe w (bl_url b) = Response (bl_status b) \<and> 400 \<le> bl_status b)
         \<or> probe w (bl_url b) = ErrorWithResponse (bl_status b)))
   \<and> (\<forall>u \<in> set (probed (checkLinksRun w baseUrl links)).
      probe w u = ErrorWithoutResponse \<longrightarrow> u \<notin> bl_url ` set (checkLinks w baseUrl links))
   \<and> distinct (map bl_url (checkLinks w baseUrl links))
   \<and> (\<forall>u \<in> set (probed (checkLinksRun w baseUrl links)). admitted w baseUrl links u)
   \<and> probed (checkLinksRun (w\<lparr>httpHead := h, httpGet := g\<rparr>) baseUrl links)
       = probed (checkLinksRun w baseUrl links)"
proof -
  let ?r = "checkLinksRun w baseUrl links"
  have inv: "linkInvariant w ?r" by (rule checkLinksRun_invariant)
  have bl: "checkLinks w baseUrl links = brokenLinks ?r" by (simp add: checkLinks_def)
  have recorded: "\<forall>b \<in> set (brokenLinks ?r).
      bl_url b \<in> set (probed ?r)
      \<and> ((probe w (bl_url b) = Response (bl_status b) \<and> 400 \<le> bl_status b)
         \<or> probe w (bl_url b) = ErrorWithResponse (bl_status b))"
    using inv by (simp add: linkInvariant_def recordedStatus_iff)
  have complete: "\<forall>u \<in> set (probed ?r).
      recordedStatus (probe w u) \<noteq> None \<longrightarrow> u \<in> bl_url ` set (brokenLinks ?r)"
    using inv by (simp add: linkInvariant_def)
  have sound: "\<forall>u \<in> bl_url ` set (brokenLinks ?r). recordedStatus (probe w u) \<noteq> None"
    using inv by (auto simp: linkInvariant_def)
  have iff: "\<forall>u \<in> set (probed ?r).
      u \<in> bl_url ` set (brokenLinks ?r) \<longleftrightarrow>
        (\<exists>s. probe w u = Response s \<and> 400 \<le> s) \<or> (\<exists>s. probe w u = ErrorWithResponse s)"
  proof
    fix u assume "u \<in> set (probed ?r)"
    with complete sound
    have "u \<in> bl_url ` set (brokenLinks ?r) \<longleftrightarrow> recordedStatus (probe w u) \<noteq> None"
      by blast
    also have "\<dots> \<longleftrightarrow> (\<exists>s. recordedStatus (probe w u) = Some s)" by auto
    also have "\<dots> \<longleftrightarrow>
        (\<exists>s. probe w u = Response s \<and> 400 \<le> s) \<or> (\<exists>s. probe w u = ErrorWithResponse s)"
      by (auto simp: recordedStatus_iff)
    finally show "u \<in> bl_url ` set (brokenLinks ?r) \<longleftrightarrow>
        (\<exists>s. probe w u = Response s \<and> 400 \<le> s) \<or> (\<exists>s. probe w u = ErrorWithResponse s)" .
  qed
  have silent: "\<forall>u \<in> set (probed ?r).
      probe w u = ErrorWithoutResponse \<longrightarrow> u \<notin> bl_url ` set (brokenLinks ?r)"
    using iff by auto
  have dist: "distinct (map bl_url (brokenLinks ?r))"
    using inv by (simp add: linkInvariant_def)
  have gate: "\<forall>u \<in> set (probed ?r). admitted w baseUrl links u"
    by (simp add: checkLinksRun_probed)
  from iff recorded silent dist gate probed_independent_of_outcomes
    [where w = w and h = h and g = g and baseUrl = baseUrl and links = links]
  show ?thesis unfolding bl by blast
qed

theorem broken_link_iff_status_obtained_witness:
  "''http://site.test/gone'' \<in> set (probed (checkLinksRun exampleWeb ''http://site.test''
     (map plainAnchor [''/gone'', ''#top'', ''/ok'', ''/gone'', ''/down'', ''/post-only''])))
   \<and> probe exampleWeb ''http://site.test/gone'' = ErrorWithResponse 404
   \<and> ''http://site.test/gone'' \<in> bl_url ` set (checkLinks exampleWeb ''http://site.test''
     (map plainAnchor [''/gone'', ''#top'', ''/ok'', ''/gone'', ''/down'', ''/post-only'']))
   \<and> ''http://site.test/down'' \<in> set (probed (checkLinksRun exampleWeb ''http://site.test''
     (map plainAnchor [''/gone'', ''#top'', ''/ok'', ''/gone'', ''/down'', ''/post-only''])))
   \<and> probe exampleWeb ''http://site.test/down'' = ErrorWithoutResponse
   \<and> ''http://site.test/down'' \<notin> bl_url ` set (checkLinks exampleWeb ''http://site.test''
     (map plainAnchor [''/gone'', ''#top'', ''/ok'', ''/gone'', ''/down'', ''/post-only'']))"
proof -
  let ?links = "map plainAnchor [''/gone'', ''#top'', ''/ok'', ''/gone'', ''/down'', ''/post-only'']"
  let ?r = "checkLinksRun exampleWeb ''http://site.test'' ?links"
  have p: "''http://site.test/gone'' \<in> set (probed ?r)" "''http://site.test/down'' \<in> set (probed ?r)"
    unfolding example_run by simp_all
  have g: "probe exampleWeb ''http://site.test/gone'' = ErrorWithResponse 404"
    and d: "probe exampleWeb ''http://site.test/down'' = ErrorWithoutResponse"
    by (simp_all add: probe_def exampleWeb_def)
  note main = broken_link_iff_status_obtained [of exampleWeb "''http://site.test''" ?links]
  from main p(1) g
  have in_: "''http://site.test/gone'' \<in> bl_url ` set (checkLinks exampleWeb ''http://site.test'' ?links)"
    by blast
  from main p(2) d
  have out: "''http://site.test/down'' \<notin> bl_url ` set (checkLinks exampleWeb ''http://site.test'' ?links)"
    by blast
  from p g d in_ out show ?thesis by blast
qed

section \<open>Properties of the Category Scorers\<close>

subsection \<open>Penalties never leave the range\<close>

lemma Math_round_range:
  assumes "0 \<le> x" and "x \<le> 100"
  shows "inScoreRange (Math_round x)"
proof -
  have "0 \<le> \<lfloor>x + 1 / 2\<rfloor>"
    using assms(1) by simp
  moreover have "\<lfloor>x + 1 / 2\<rfloor> \<le> 100"
    using assms(2) by (simp add: floor_le_iff)
  ultimately show ?thesis
    by (simp add: inScoreRange_def Math_round_def)
qed

lemma floored_range: "y \<le> 100 \<Longrightarrow> inScoreRange (max 0 y)"
  by (simp add: inScoreRange_def)

lemma penalty:
  fixes s k :: rat
  shows "s \<le> 100 \<Longrightarrow> (c \<Longrightarrow> 0 \<le> k) \<Longrightarrow> (if c then s - k else s) \<le> 100"
  by (cases c) simp_all

lemma penalty2:
  fixes s k1 k2 :: rat
  shows "s \<le> 100 \<Longrightarrow> 0 \<le> k1 \<Longrightarrow> 0 \<le> k2 \<Longrightarrow>
         (if a then s - k1 else if b then s - k2 else s) \<le> 100"
  by simp

lemma penalty3:
  fixes s k1 k2 k3 :: rat
  shows "s \<le> 100 \<Longrightarrow> 0 \<le> k1 \<Longrightarrow> 0 \<le> k2 \<Longrightarrow> 0 \<le> k3 \<Longrightarrow>
         (if a then s - k1 else if b then s - k2 else if c then s - k3 else s) \<le> 100"
  by simp

lemma deduction:
  fixes s k :: rat
  shows "s \<le> 100 \<Longrightarrow> 0 \<le> k \<Longrightarrow> s - k \<le> 100"
  by simp

lemmas penalties = penalty3 penalty2 penalty deduction

lemma analyzeMetaTagsScore_range: "inScoreRange (analyzeMetaTagsScore metaTags)"
  unfolding analyzeMetaTagsScore_def Let_def
  by (rule floored_range) (intro penalties, simp_all)

lemma analyzeContentStructure_range: "inScoreRange (analyzeContentStructure p)"
  unfolding analyzeContentStructure_def Let_def
  by (rule floored_range) (intro penalties, simp_all)

lemma analyzeTechnicalSEO_range: "inScoreRange (analyzeTechnicalSEO p broken statistics)"
  unfolding analyzeTechnicalSEO_def Let_def
  by (rule floored_range) (intro penalties, simp_all)

lemma analyzePerformanceScore_range: "inScoreRange (analyzePerformanceScore m)"
  unfolding analyzePerformanceScore_def Let_def
  by (rule floored_range) (intro penalties, simp_all)

lemma analyzeUserExperience_range: "inScoreRange (analyzeUserExperience p issues)"
  unfolding analyzeUserExperience_def Let_def
  by (rule floored_range) (intro penalties, simp_all)

lemma calculateCategoryScore_range: "inScoreRange (calculateCategoryScore issues types)"
  unfolding calculateCategoryScore_def Let_def
  by (rule floored_range) (intro penalties, simp_all)

subsection \<open>Mobile sub-scores and the weighted sums\<close>

lemma Math_round_le: "x \<le> 100 \<Longrightarrow> Math_round x \<le> 100"
  by (simp add: Math_round_def floor_le_iff)

lemma share_range:
  fixes part whole :: nat
  shows "inScoreRange (max 0 (100 - (rat_of_nat part / rat_of_nat whole * 100)))"
  by (rule floored_range) simp

lemma analyzeTouchTargets_range: "inScoreRange (analyzeTouchTargets p)"
proof -
  have "inScoreRange (if c then 50 else if d then max 0 (100 - (rat_of_nat a / rat_of_nat b * 100)) else 100)"
    for c d a b
    using share_range [of a b] by (simp add: inScoreRange_def)
  then show ?thesis
    unfolding analyzeTouchTargets_def Let_def
    by (intro Math_round_range) (auto simp: inScoreRange_def)
qed

lemma analyzeTextReadability_range: "inScoreRange (analyzeTextReadability p)"
proof -
  have step1: "inScoreRange (if d then max 0 (100 - (rat_of_nat a / rat_of_nat b * 100)) else 100)"
    for d a b
    using share_range [of a b] by (simp add: inScoreRange_def)
  have step2: "inScoreRange s \<Longrightarrow> inScoreRange (if c then max (s - 20) 0 else s)" for c s
    by (auto simp: inScoreRange_def)
  have "inScoreRange (if c then max ((if d then max 0 (100 - (rat_of_nat a / rat_of_nat b * 100)) else 100) - 20) 0
                      else (if d then max 0 (100 - (rat_of_nat a / rat_of_nat b * 100)) else 100))"
    for c d a b
    by (rule step2) (rule step1)
  then show ?thesis
    unfolding analyzeTextReadability_def Let_def
    by (intro Math_round_range) (simp_all add: inScoreRange_def)
qed

lemma analyzeMobilePerformance_range: "inScoreRange (analyzeMobilePerformance p m)"
  unfolding analyzeMobilePerformance_def Let_def
  by (rule floored_range, rule Math_round_le) (intro penalties, simp_all)

lemma analyzeMobileSEO_range: "inScoreRange (analyzeMobileSEO p)"
  unfolding analyzeMobileSEO_def Let_def
  by (rule floored_range, rule Math_round_le) (intro penalties, simp_all)

lemma weighted_seo_range:
  assumes "inScoreRange a" "inScoreRange b" "inScoreRange c" "inScoreRange d" "inScoreRange e"
  shows "inScoreRange (Math_round ((a * (30 / 100)) + (b * (25 / 100)) + (c * (20 / 100))
           + (d * (15 / 100)) + (e * (10 / 100))))"
  using assms unfolding inScoreRange_def
  by (intro Math_round_range [unfolded inScoreRange_def] conjI) simp_all

lemma weighted_mobile_range:
  assumes "0 \<le> v" "v \<le> 20" "inScoreRange b" "inScoreRange c" "inScoreRange d" "inScoreRange e"
  shows "inScoreRange (Math_round (v + (b * (25 / 100)) + (c * (20 / 100))
           + (d * (20 / 100)) + (e * (15 / 100))))"
  using assms unfolding inScoreRange_def
  by (intro Math_round_range [unfolded inScoreRange_def] conjI) simp_all

lemma calculateAdvancedSEOScoring_range:
  "inScoreRange (seo_overallScore (calculateAdvancedSEOScoring p metaTags issues broken m st))"
  "inScoreRange (seo_metaTags (seo_categoryScores (calculateAdvancedSEOScoring p metaTags issues broken m st)))"
  "inScoreRange (seo_contentStructure (seo_categoryScores (calculateAdvancedSEOScoring p metaTags issues broken m st)))"
  "inScoreRange (seo_technicalSEO (seo_categoryScores (calculateAdvancedSEOScoring p metaTags issues broken m st)))"
  "inScoreRange (seo_performance (seo_categoryScores (calculateAdvancedSEOScoring p metaTags issues broken m st)))"
  "inScoreRange (seo_userExperience (seo_categoryScores (calculateAdvancedSEOScoring p metaTags issues broken m st)))"
proof -
  show "inScoreRange (seo_overallScore (calculateAdvancedSEOScoring p metaTags issues broken m st))"
    unfolding calculateAdvancedSEOScoring_def Let_def SEOScoring.simps
    by (rule weighted_seo_range [OF analyzeMetaTagsScore_range analyzeContentStructure_range
          analyzeTechnicalSEO_range analyzePerformanceScore_range analyzeUserExperience_range])
qed (simp_all add: calculateAdvancedSEOScoring_def Let_def
      analyzeMetaTagsScore_range analyzeContentStructure_range analyzeTechnicalSEO_range
      analyzePerformanceScore_range analyzeUserExperience_range)

lemma calculateAccessibilityScoring_range:
  "inScoreRange (acc_overallScore (calculateAccessibilityScoring issues))"
  "inScoreRange (perceivable (acc_categoryScores (calculateAccessibilityScoring issues)))"
  "inScoreRange (operable (acc_categoryScores (calculateAccessibilityScoring issues)))"
  "inScoreRange (understandable (acc_categoryScores (calculateAccessibilityScoring issues)))"
  "inScoreRange (robust (acc_categoryScores (calculateAccessibilityScoring issues)))"
proof -
  have "inScoreRange (max 0 (100 - rat_of_nat (c * 15) - rat_of_nat (w * 5)))" for c w
    by (rule floored_range) simp
  then show "inScoreRange (acc_overallScore (calculateAccessibilityScoring issues))"
    by (simp add: calculateAccessibilityScoring_def Let_def)
qed (simp_all add: calculateAccessibilityScoring_def Let_def calculateCategoryScore_range)

lemma analyzeMobileFriendliness_range:
  "inScoreRange (mob_overallScore (analyzeMobileFriendliness p m))"
  "inScoreRange (mob_touchTargets (analyzeMobileFriendliness p m))"
  "inScoreRange (mob_textReadability (analyzeMobileFriendliness p m))"
  "inScoreRange (mob_mobilePerformance (analyzeMobileFriendliness p m))"
  "inScoreRange (mob_mobileSEO (analyzeMobileFriendliness p m))"
proof -
  have v: "0 \<le> (if analyzeViewport p = ViewportGood then 20
                 else if analyzeViewport p = ViewportWarning then 10 else (0::rat))"
    "(if analyzeViewport p = ViewportGood then 20
      else if analyzeViewport p = ViewportWarning then 10 else (0::rat)) \<le> 20"
    by simp_all
  show "inScoreRange (mob_overallScore (analyzeMobileFriendliness p m))"
    unfolding analyzeMobileFriendliness_def Let_def MobileAnalysis.simps
    by (rule weighted_mobile_range [OF v analyzeTouchTargets_range analyzeTextReadability_range
          analyzeMobilePerformance_range analyzeMobileSEO_range])
qed (simp_all add: analyzeMobileFriendliness_def Let_def analyzeTouchTargets_range
      analyzeTextReadability_range analyzeMobilePerformance_range analyzeMobileSEO_range)

lemma example_audit:
  "seo_userExperience (seo_categoryScores (seoScoring
     (auditWebsite barePage noMetaTags
        [criticalIssue, criticalIssue, criticalIssue, criticalIssue, criticalIssue,
         criticalIssue, criticalIssue] [] 6000 3000000))) = 0"
  "acc_overallScore (accessibilityScoring
     (auditWebsite barePage noMetaTags
        [criticalIssue, criticalIssue, criticalIssue, criticalIssue, criticalIssue,
         criticalIssue, criticalIssue] [] 6000 3000000)) = 0"
  "robust (acc_categoryScores (accessibilityScoring
     (auditWebsite barePage noMetaTags
        [criticalIssue, criticalIssue, criticalIssue, criticalIssue, criticalIssue,
         criticalIssue, criticalIssue] [] 6000 3000000))) = 0"
  "mob_touchTargets (mobileAnalysis
     (auditWebsite barePage noMetaTags
        [criticalIssue, criticalIssue, criticalIssue, criticalIssue, criticalIssue,
         criticalIssue, criticalIssue] [] 6000 3000000)) = 0"
  "overallScoreOf
     (auditWebsite barePage noMetaTags
        [criticalIssue, criticalIssue, criticalIssue, criticalIssue, criticalIssue,
         criticalIssue, criticalIssue] [] 6000 3000000) = 19"
  by code_simp+

subsection \<open>Every score of an audit\<close>

text \<open>
  C3. Whatever the page, the meta tags, the accessibility issues, the broken links and the
  fetch metrics are, every score of the audit lies between 0 and 100: the overall score,
  the SEO overall score and its five sub-scores, the accessibility overall score and its
  four sub-scores by WCAG principle, and the mobile overall score and its four sub-scores.
\<close>

theorem audit_scores_within_range:
  "inScoreRange (overallScoreOf (auditWebsite p metaTags issues broken fetchTime fetchSize))
   \<and> inScoreRange (seo_overallScore (seoScoring
        (auditWebsite p metaTags issues broken fetchTime fetchSize)))
   \<and> inScoreRange (seo_metaTags (seo_categoryScores (seoScoring
        (auditWebsite p metaTags issues broken fetchTime fetchSize))))
   \<and> inScoreRange (seo_contentStructure (seo_categoryScores (seoScoring
        (auditWebsite p metaTags issues broken fetchTime fetchSize))))
   \<and> inScoreRange (seo_technicalSEO (seo_categoryScores (seoScoring
        (auditWebsite p metaTags issues broken fetchTime fetchSize))))
   \<and> inScoreRange (seo_performance (seo_categoryScores (seoScoring
        (auditWebsite p metaTags issues broken fetchTime fetchSize))))
   \<and> inScoreRange (seo_userExperience (seo_categoryScores (seoScoring
        (auditWebsite p metaTags issues broken fetchTime fetchSize))))
   \<and> inScoreRange (acc_overallScore (accessibilityScoring
        (auditWebsite p metaTags issues broken fetchTime fetchSize)))
   \<and> inScoreRange (perceivable (acc_categoryScores (accessibilityScoring
        (auditWebsite p metaTags issues broken fetchTime fetchSize))))
   \<and> inScoreRange (operable (acc_categoryScores (accessibilityScoring
        (auditWebsite p metaTags issues broken fetchTime fetchSize))))
   \<and> inScoreRange (understandable (acc_categoryScores (accessibilityScoring
        (auditWebsite p metaTags issues broken fetchTime fetchSize))))
   \<and> inScoreRange (robust (acc_categoryScores (accessibilityScoring
        (auditWebsite p metaTags issues broken fetchTime fetchSize))))
   \<and> inScoreRange (mob_overallScore (mobileAnalysis
        (auditWebsite p metaTags issues broken fetchTime fetchSize)))
   \<and> inScoreRange (mob_touchTargets (mobileAnalysis
        (auditWebsite p metaTags issues broken fetchTime fetchSize)))
   \<and> inScoreRange (mob_textReadability (mobileAnalysis
        (auditWebsite p metaTags issues broken fetchTime fetchSize)))
   \<and> inScoreRange (mob_mobilePerformance (mobileAnalysis
        (auditWebsite p metaTags issues broken fetchTime fetchSize)))
   \<and> inScoreRange (mob_mobileSEO (mobileAnalysis
        (auditWebsite p metaTags issues broken fetchTime fetchSize)))"
  unfolding auditWebsite_def Let_def AuditScores.simps
  by (intro conjI calculateAdvancedSEOScoring_range calculateAccessibilityScoring_range
      analyzeMobileFriendliness_range)

theorem audit_scores_within_range_witness:
  "inScoreRange (overallScoreOf
     (auditWebsite barePage noMetaTags
        [criticalIssue, criticalIssue, criticalIssue, criticalIssue, criticalIssue,
         criticalIssue, criticalIssue] [] 6000 3000000))
   \<and> overallScoreOf
     (auditWebsite barePage noMetaTags
        [criticalIssue, criticalIssue, criticalIssue, criticalIssue, criticalIssue,
         criticalIssue, criticalIssue] [] 6000 3000000) = 19
   \<and> inScoreRange (acc_overallScore (accessibilityScoring
     (auditWebsite barePage noMetaTags
        [criticalIssue, criticalIssue, criticalIssue, criticalIssue, criticalIssue,
         criticalIssue, criticalIssue] [] 6000 3000000)))
   \<and> acc_overallScore (accessibilityScoring
     (auditWebsite barePage noMetaTags
        [criticalIssue, criticalIssue, criticalIssue, criticalIssue, criticalIssue,
         criticalIssue, criticalIssue] [] 6000 3000000)) = 0
   \<and> seo_userExperience (seo_categoryScores (seoScoring
     (auditWebsite barePage noMetaTags
        [criticalIssue, criticalIssue, criticalIssue, criticalIssue, criticalIssue,
         criticalIssue, criticalIssue] [] 6000 3000000))) = 0
   \<and> mob_touchTargets (mobileAnalysis
     (auditWebsite barePage noMetaTags
        [criticalIssue, criticalIssue, criticalIssue, criticalIssue, criticalIssue,
         criticalIssue, criticalIssue] [] 6000 3000000)) = 0"
  using audit_scores_within_range [of barePage noMetaTags
      "[criticalIssue, criticalIssue, criticalIssue, criticalIssue, criticalIssue,
        criticalIssue, criticalIssue]" "[]" 6000 3000000]
    example_audit
  by blast

end
